theory Spec2Isabelle
  imports Main "HOL-Library.Char_ord" "HOL-Library.List_Lexorder" "HOL-Library.Sublist"
    "HOL-Library.AList"
begin

section \<open>Flintrock: a shallow embedding of \<^verbatim>\<open>flintrock.py\<close>\<close>

text \<open>
  The program drives a cloud provider (boto/EC2), SSH sessions and a clock. None of these
  is code of the program, so each model function takes what the outside world answers as
  an argument and returns what the program does with it: the lines it prints, the calls
  it makes and how it ends. Python exceptions are values of the type \<open>exn\<close>; a function
  that may raise returns \<open>exn + 'a\<close>, with \<open>Inl\<close> for the exception.
\<close>

subsection \<open>Data model\<close>

text \<open>
  A boto \<^verbatim>\<open>Instance\<close>, reduced to the attributes the program reads. \<^verbatim>\<open>tags\<close> is a
  dictionary: an association list read with \<open>map_of\<close>, so that a missing key is visible.
  \<^verbatim>\<open>groups\<close> holds the names of the security groups the instance is a member of.
\<close>

record ec2_instance =
  inst_id :: string
  state :: string
  public_dns_name :: string
  ip_address :: string
  tags :: "(string \<times> string) list"
  groups :: "string list"

text \<open>The exceptions the program raises, catches or lets through.\<close>

datatype exn =
    ClusterNotFound string
  | SystemExit int
  | IndexError
  | KeyError string
  | ValueError
  | EC2ResponseError string
  | KeyboardInterrupt
  | SocketTimeout
  | SocketError int
  | AuthenticationException
  | TypeError
  | AttributeError
  | Abort
  | Exception string

subsection \<open>Text helpers\<close>

text \<open>Python's \<^verbatim>\<open>str\<close> of a non-negative integer, and of any integer.\<close>

fun str_nat :: "nat \<Rightarrow> string" where
  "str_nat n =
     (if n < 10 then [''0123456789'' ! n]
      else str_nat (n div 10) @ [''0123456789'' ! (n mod 10)])"

declare str_nat.simps [simp del]

definition str_int :: "int \<Rightarrow> string" where
  "str_int i = (if i < 0 then CHR ''-'' # str_nat (nat (- i)) else str_nat (nat i))"

text \<open>\<^verbatim>\<open>sep.join(parts)\<close>.\<close>

fun join :: "string \<Rightarrow> string list \<Rightarrow> string" where
  "join sep [] = []"
| "join sep [p] = p"
| "join sep (p # q # ps) = p @ sep @ join sep (q # ps)"

subsection \<open>Aggregated cluster state\<close>

text \<open>
  \<^verbatim>\<open>
  def get_cluster_state_ec2(cluster_instances: list) -> str:
      instance_states = set(instance.state for instance in cluster_instances)
      if len(instance_states) == 1:
          return next(iter(instance_states))
      else:
          return 'inconsistent'
  \<close>
  The Python set is the duplicate-free list \<open>remdups\<close>; its iteration order only
  matters when it has one element.
\<close>

definition get_cluster_state_ec2 :: "ec2_instance list \<Rightarrow> string" where
  "get_cluster_state_ec2 cluster_instances =
     (let instance_states = remdups (map state cluster_instances)
      in if length instance_states = 1 then hd instance_states else ''inconsistent'')"

subsection \<open>Modules, cluster information, events\<close>

text \<open>
  \<^verbatim>\<open>class Spark\<close> is the only module. Its version is what the command line gave:
  \<^verbatim>\<open>--spark-version\<close> has no default, so it may be \<^verbatim>\<open>None\<close>.
\<close>

datatype flintrock_module = Spark "string option"

record key_pair =
  public_key :: string
  private_key :: string

text \<open>
  \<^verbatim>\<open>ClusterInfo\<close>. \<^verbatim>\<open>ssh_key_pair\<close> is \<^verbatim>\<open>None\<close> when a cluster is started again.
\<close>

record cluster_info =
  name :: string
  ssh_key_pair :: "key_pair option"
  master_host :: string
  slave_hosts :: "string list"
  spark_scratch_dir :: string
  spark_master_opts :: string

text \<open>\<^verbatim>\<open>SecurityGroupRule\<close>; \<^verbatim>\<open>src_group\<close> is the name of the source group.\<close>

record security_group_rule =
  ip_protocol :: string
  from_port :: int
  to_port :: int
  src_group :: "string option"
  cidr_ip :: "string option"

text \<open>
  The shell scripts the program sends over SSH, one constructor for each script text of
  the source with the values formatted into it (the quoting of \<^verbatim>\<open>shlex.quote\<close> is
  part of the text and not modelled).
\<close>

datatype command =
    InstallKeys string string
  | EchoJavaHome
  | InstallJava
  | InstallSpark string string string
  | WriteSparkEnv string
  | StartSparkMaster "string list" string

text \<open>Operations whose entry and normal return are recorded in the trace.\<close>

datatype operation =
    ConfigureMaster flintrock_module
  | HealthCheck flintrock_module

text \<open>
  What an execution does, in order. An event of a call that has an answer carries the
  answer, so that a trace tells what the program had seen at each point:
  \<open>RunInstances count security_group_ids reservation\<close> and \<open>Update position handle\<close>
  are recorded when the provider has answered. \<open>Submit host\<close> and \<open>Completed host\<close> are
  the hand-over of a node's task to the thread pool and the completion of its future.
  \<open>BuildClusterInfo\<close> records the construction of the \<^verbatim>\<open>ClusterInfo\<close> tuple.
\<close>

datatype event =
    Print string
  | PrintErr string
  | Sleep nat
  | Confirm string bool
  | CreateSecurityGroup string string "string option"
  | Authorize string security_group_rule
  | RunInstances int "string list" "ec2_instance list"
  | Update nat ec2_instance
  | CreateTags "string list" "(string \<times> string) list"
  | Terminate string
  | StopInstance string
  | StartInstance string
  | GenerateKeyPair
  | BuildClusterInfo cluster_info
  | Submit string
  | Completed string
  | Enter operation
  | Exit operation
  | SshConnect string
  | SshExec string command
  | SshClose string
  | LocalSsh string string string
  | HttpGet string

text \<open>
  How a run ends: it returns a value, raises, or is still inside one of the program's
  unbounded retry loops when the recorded answers of the world end (\<open>Waiting\<close>; a longer
  record of answers continues the same run).
\<close>

datatype 'a outcome = Returned 'a | Raised exn | Waiting

type_synonym 'a run = "event list \<times> 'a outcome"

definition and_then :: "'a run \<Rightarrow> ('a \<Rightarrow> 'b run) \<Rightarrow> 'b run" where
  "and_then r f =
     (case snd r of
        Returned x \<Rightarrow> (fst r @ fst (f x), snd (f x))
      | Raised e \<Rightarrow> (fst r, Raised e)
      | Waiting \<Rightarrow> (fst r, Waiting))"

definition emit :: "event list \<Rightarrow> unit run" where
  "emit es = (es, Returned ())"

definition answer :: "exn + 'a \<Rightarrow> 'a run" where
  "answer a = (case a of Inl e \<Rightarrow> ([], Raised e) | Inr x \<Rightarrow> ([], Returned x))"

text \<open>A \<^verbatim>\<open>for\<close> loop whose body may raise: the first exception ends it.\<close>

fun for_each :: "'a list \<Rightarrow> ('a \<Rightarrow> unit run) \<Rightarrow> unit run" where
  "for_each [] body = ([], Returned ())"
| "for_each (x # xs) body = and_then (body x) (\<lambda>_. for_each xs body)"

subsection \<open>Describing clusters\<close>

text \<open>
  \<^verbatim>\<open>
  def print_cluster_info_ec2(cluster_name: str, cluster_instances: list):
      print(cluster_name + ':')
      print('  state: {s}'.format(s=get_cluster_state_ec2(cluster_instances=cluster_instances)))
      print('  node-count: {nc}'.format(nc=len(cluster_instances)))

      if get_cluster_state_ec2(cluster_instances=cluster_instances) == 'running':
          print('\n    - '.join(['  nodes:'] + [i.public_dns_name for i in cluster_instances]))
  \<close>
\<close>

definition print_cluster_info_ec2 :: "string \<Rightarrow> ec2_instance list \<Rightarrow> event list" where
  "print_cluster_info_ec2 cluster_name cluster_instances =
     [Print (cluster_name @ '':''),
      Print (''  state: '' @ get_cluster_state_ec2 cluster_instances),
      Print (''  node-count: '' @ str_nat (length cluster_instances))]
     @ (if get_cluster_state_ec2 cluster_instances = ''running''
        then [Print (join (CHR 0x0A # ''    - '')
                       (''  nodes:'' # map public_dns_name cluster_instances))]
        else [])"

text \<open>\<^verbatim>\<open>s.replace(old, new, 1)\<close>: the first occurrence of \<open>old\<close> is replaced.\<close>

fun replace1 :: "string \<Rightarrow> string \<Rightarrow> string \<Rightarrow> string" where
  "replace1 old new [] = (if old = [] then new else [])"
| "replace1 old new (c # cs) =
     (if prefix old (c # cs) then new @ drop (length old) (c # cs)
      else c # replace1 old new cs)"

text \<open>
  The names of the clusters among the instances a lookup returned: the group names that
  start with \<^verbatim>\<open>flintrock-\<close>, as a set, with that prefix removed.
\<close>

definition cluster_names_of :: "ec2_instance list \<Rightarrow> string list" where
  "cluster_names_of cluster_instances =
     (let security_groups = concat (map groups cluster_instances);
          security_group_names = remdups (filter (prefix ''flintrock-'') security_groups)
      in map (replace1 ''flintrock-'' []) security_group_names)"

definition members_of :: "string \<Rightarrow> ec2_instance list \<Rightarrow> ec2_instance list" where
  "members_of cluster_name cluster_instances =
     filter (\<lambda>i. (''flintrock-'' @ cluster_name) \<in> set (groups i)) cluster_instances"

text \<open>
  A security group as the provider holds it. The provider's groups are an association
  list from group names, which are unique within a region, to groups.
\<close>

record security_group =
  sg_id :: string
  sg_description :: string
  sg_vpc_id :: "string option"
  sg_rules :: "security_group_rule list"

type_synonym sg_state = "(string \<times> security_group) list"

subsection \<open>The outside world\<close>

text \<open>An attempt to open an SSH connection succeeds or raises.\<close>

datatype connect_answer = Connected | ConnectFailed exn

text \<open>
  Everything the program asks of its environment, as the answers it gets.
  \<^item> \<open>get_only_instances region filters\<close>: the provider's instance lookup.
  \<^item> \<open>confirm text\<close>: what the user answers to \<^verbatim>\<open>click.confirm\<close>.
  \<^item> \<open>checkip\<close>: the client's address as \<^verbatim>\<open>checkip.amazonaws.com\<close> reports it.
  \<^item> \<open>create_group_fault\<close>, \<open>authorize_fault\<close>, \<open>create_tags\<close>, \<open>instance_call\<close>: the
    exception, if any, with which the provider rejects a request (\<open>instance_call\<close>
    takes \<open>start\<close>, \<open>stop\<close> or \<open>terminate\<close> and the instance id).
  \<^item> \<open>run_instances count\<close>: the handles of a reservation for \<open>count\<close> instances.
  \<^item> \<open>updates\<close>: what the successive calls of \<^verbatim>\<open>instance.update()\<close> read back.
  \<^item> \<open>ssh_keygen\<close>: the key pair \<^verbatim>\<open>ssh-keygen\<close> writes.
  \<^item> \<open>connects host\<close>, \<open>master_connects host\<close>: the successive connection attempts of the
    per-node session and of the later session on the master.
  \<^item> \<open>exec_command host command\<close>: exit status, standard output and standard error of
    a script, or \<open>None\<close> when the script never ends (the script that starts the Spark
    master polls without a bound).
  \<^item> \<open>read_file path\<close>: the text of a template file.
  \<^item> \<open>py_repr\<close>: Python's \<^verbatim>\<open>repr\<close> of a string, which is not modelled.
  \<^item> \<open>schedule\<close>, \<open>done_order\<close>: the order in which the thread pool lets tasks make
    steps, and the iteration order of the set of finished futures.
  \<^item> \<open>spark_ui url\<close>: the outcome of fetching and parsing the master's JSON page, and
    then of formatting the report.
  \<^item> \<open>elapsed\<close>: the duration the \<^verbatim>\<open>timeit\<close> decorator prints.
  \<^item> \<open>provider_groups\<close>: the provider's security groups when a command starts;
    \<open>new_group_id name\<close>: the id the provider gives a group it creates.
  \<^item> \<open>format_rest mapping field_name rest\<close>: what \<^verbatim>\<open>str.format_map\<close> makes of a
    template from a replacement field on whose name is followed by a conversion, a format
    specification, an attribute or index lookup or a brace; this part of Python's format
    language is not modelled.
\<close>

record world =
  get_only_instances :: "string \<Rightarrow> (string \<times> string) list \<Rightarrow> exn + ec2_instance list"
  confirm :: "string \<Rightarrow> bool"
  checkip :: "exn + string"
  create_group_fault :: "string \<Rightarrow> exn option"
  authorize_fault :: "string \<Rightarrow> security_group_rule \<Rightarrow> exn option"
  run_instances :: "int \<Rightarrow> exn + ec2_instance list"
  updates :: "(exn + ec2_instance) list"
  create_tags :: "string list \<Rightarrow> (string \<times> string) list \<Rightarrow> exn option"
  instance_call :: "string \<Rightarrow> string \<Rightarrow> exn option"
  ssh_keygen :: "exn + key_pair"
  connects :: "string \<Rightarrow> connect_answer list"
  master_connects :: "string \<Rightarrow> connect_answer list"
  exec_command :: "string \<Rightarrow> command \<Rightarrow> (int \<times> string \<times> string) option"
  read_file :: "string \<Rightarrow> exn + string"
  py_repr :: "string \<Rightarrow> string"
  schedule :: "nat list"
  done_order :: "nat list"
  spark_ui :: "string \<Rightarrow> exn + (exn + string)"
  elapsed :: string
  provider_groups :: sg_state
  new_group_id :: "string \<Rightarrow> string"
  format_rest :: "(string \<times> string) list \<Rightarrow> string \<Rightarrow> string \<Rightarrow> exn + string"

text \<open>
  A world in which the region holds no instance and nothing fails; concrete inputs are
  written as updates of it.
\<close>

definition quiet_world :: world where
  "quiet_world =
     \<lparr>get_only_instances = (\<lambda>region filters. Inr []),
      confirm = (\<lambda>text. True),
      checkip = Inr ''203.0.113.7'',
      create_group_fault = (\<lambda>group_name. None),
      authorize_fault = (\<lambda>group_name rule. None),
      run_instances = (\<lambda>count. Inr []),
      updates = [],
      create_tags = (\<lambda>ids ts. None),
      instance_call = (\<lambda>call i. None),
      ssh_keygen = Inr \<lparr>public_key = ''ssh-rsa AAAA flintrock'', private_key = ''KEY''\<rparr>,
      connects = (\<lambda>host. [Connected]),
      master_connects = (\<lambda>host. [Connected]),
      exec_command = (\<lambda>host c. Some (0, ''/usr/lib/jvm/jre'', [])),
      read_file = (\<lambda>path. Inr []),
      py_repr = (\<lambda>s. s),
      schedule = [],
      done_order = [],
      spark_ui = (\<lambda>url. Inr (Inr ''Spark Health Report:'')),
      elapsed = ''0:00:00'',
      provider_groups = [],
      new_group_id = (\<lambda>group_name. ''sg-'' @ group_name),
      format_rest = (\<lambda>mapping field_name rest. Inl ValueError)\<rparr>"

subsection \<open>Describing clusters: the command\<close>

text \<open>
  \<^verbatim>\<open>
  def describe_ec2(*, cluster_name, master_hostname_only=False, region):
      connection = boto.ec2.connect_to_region(region_name=region)
      cluster_instances = connection.get_only_instances(
          filters={
              'instance.group-name': 'flintrock-' + cluster_name if cluster_name else 'flintrock'
          })
      security_groups = itertools.chain.from_iterable([i.groups for i in cluster_instances])
      security_group_names = {g.name for g in security_groups if g.name.startswith('flintrock-')}
      cluster_names = [n.replace('flintrock-', '', 1) for n in security_group_names]
      print("{n} cluster{s} found.".format(
          n=len(cluster_names),
          s='' if len(cluster_names) == 1 else 's'))
      if cluster_names:
          print('---')
          for cluster_name in sorted(cluster_names):
              filtered_instances = []
              for instance in cluster_instances:
                  if ('flintrock-' + cluster_name) in {g.name for g in instance.groups}:
                      filtered_instances.append(instance)
              print_cluster_info_ec2(
                  cluster_name=cluster_name,
                  cluster_instances=filtered_instances)
  \<close>
  The cluster name is optional on the command line; \<^verbatim>\<open>None\<close> and the empty text are
  both false in the condition.
\<close>

definition describe_filter :: "string option \<Rightarrow> (string \<times> string) list" where
  "describe_filter cluster_name =
     [(''instance.group-name'',
       (case cluster_name of
          None \<Rightarrow> ''flintrock''
        | Some n \<Rightarrow> if n \<noteq> [] then ''flintrock-'' @ n else ''flintrock''))]"

definition describe_ec2 :: "world \<Rightarrow> string option \<Rightarrow> bool \<Rightarrow> string \<Rightarrow> unit run" where
  "describe_ec2 w cluster_name master_hostname_only region =
     and_then (answer (get_only_instances w region (describe_filter cluster_name)))
       (\<lambda>cluster_instances.
          let cluster_names = cluster_names_of cluster_instances
          in emit
               (Print (str_nat (length cluster_names) @ '' cluster''
                         @ (if length cluster_names = 1 then [] else ''s'') @ '' found.'')
                # (if cluster_names \<noteq> []
                   then Print ''---''
                        # concat (map (\<lambda>cluster_name.
                                         print_cluster_info_ec2 cluster_name
                                           (members_of cluster_name cluster_instances))
                                    (sort cluster_names))
                   else [])))"

subsection \<open>Looking a cluster up\<close>

text \<open>
  \<^verbatim>\<open>list(filter(lambda i: i.tags['flintrock-role'] == 'master', cluster_instances))\<close>
  and its negation: the tag of every instance is read, and a missing tag raises
  \<^verbatim>\<open>KeyError\<close>.
\<close>

fun filter_by_role :: "(string \<Rightarrow> bool) \<Rightarrow> ec2_instance list \<Rightarrow> exn + ec2_instance list" where
  "filter_by_role p [] = Inr []"
| "filter_by_role p (i # rest) =
     (case map_of (tags i) ''flintrock-role'' of
        None \<Rightarrow> Inl (KeyError ''flintrock-role'')
      | Some role \<Rightarrow>
          (case filter_by_role p rest of
             Inl e \<Rightarrow> Inl e
           | Inr kept \<Rightarrow> Inr (if p role then i # kept else kept)))"

text \<open>
  \<^verbatim>\<open>
  def get_cluster_instances_ec2(*, cluster_name, region):
      connection = boto.ec2.connect_to_region(region_name=region)
      cluster_instances = connection.get_only_instances(
          filters={'instance.group-name': 'flintrock-' + cluster_name})
      if not cluster_instances:
          raise ClusterNotFound("No such cluster: {c}".format(c=cluster_name))
      master_instance = list(filter(
          lambda i: i.tags['flintrock-role'] == 'master',
          cluster_instances))[0]
      slave_instances = list(filter(
          lambda i: i.tags['flintrock-role'] != 'master',
          cluster_instances))
      return master_instance, slave_instances
  \<close>
\<close>

definition cluster_filter :: "string \<Rightarrow> (string \<times> string) list" where
  "cluster_filter cluster_name = [(''instance.group-name'', ''flintrock-'' @ cluster_name)]"

definition get_cluster_instances_ec2 ::
  "world \<Rightarrow> string \<Rightarrow> string \<Rightarrow> exn + ec2_instance \<times> ec2_instance list" where
  "get_cluster_instances_ec2 w cluster_name region =
     (case get_only_instances w region (cluster_filter cluster_name) of
        Inl e \<Rightarrow> Inl e
      | Inr cluster_instances \<Rightarrow>
          if cluster_instances = []
          then Inl (ClusterNotFound (''No such cluster: '' @ cluster_name))
          else
            (case filter_by_role (\<lambda>role. role = ''master'') cluster_instances of
               Inl e \<Rightarrow> Inl e
             | Inr [] \<Rightarrow> Inl IndexError
             | Inr (master_instance # _) \<Rightarrow>
                 (case filter_by_role (\<lambda>role. role \<noteq> ''master'') cluster_instances of
                    Inl e \<Rightarrow> Inl e
                  | Inr slave_instances \<Rightarrow> Inr (master_instance, slave_instances))))"

text \<open>An instance whose \<^verbatim>\<open>flintrock-role\<close> tag is \<^verbatim>\<open>master\<close>.\<close>

definition is_master :: "ec2_instance \<Rightarrow> bool" where
  "is_master i = (map_of (tags i) ''flintrock-role'' = Some ''master'')"

definition has_role :: "ec2_instance \<Rightarrow> bool" where
  "has_role i = (map_of (tags i) ''flintrock-role'' \<noteq> None)"

subsection \<open>Opening an SSH session\<close>

text \<open>
  \<^verbatim>\<open>
  def get_ssh_client(*, user, host, identity_file, print_status=False):
      client = paramiko.client.SSHClient()
      client.load_system_host_keys()
      client.set_missing_host_key_policy(paramiko.client.AutoAddPolicy())
      while True:
          try:
              client.connect(username=user, hostname=host, key_filename=identity_file,
                             look_for_keys=False, timeout=3)
              if print_status:
                  print("[{h}] SSH online.".format(h=host))
              break
          except socket.timeout as e:
              time.sleep(5)
          except socket.error as e:
              if e.errno != 61:
                  raise
              time.sleep(5)
          except paramiko.ssh_exception.AuthenticationException as e:
              time.sleep(5)
      return client
  \<close>
  The loop has no bound; the model follows it along the recorded connection attempts.
  \<open>SocketError errno\<close> stands for every \<^verbatim>\<open>socket.error\<close> other than a timeout. The
  client returned is identified by its host.
\<close>

fun get_ssh_client ::
  "string \<Rightarrow> string \<Rightarrow> string \<Rightarrow> bool \<Rightarrow> connect_answer list \<Rightarrow> string run" where
  "get_ssh_client user host identity_file print_status [] = ([], Waiting)"
| "get_ssh_client user host identity_file print_status (Connected # attempts) =
     (SshConnect host
        # (if print_status then [Print (''['' @ host @ ''] SSH online.'')] else []),
      Returned host)"
| "get_ssh_client user host identity_file print_status (ConnectFailed e # attempts) =
     (let retry = and_then (emit [SshConnect host, Sleep 5])
                    (\<lambda>_. get_ssh_client user host identity_file print_status attempts)
      in case e of
           SocketTimeout \<Rightarrow> retry
         | SocketError errno \<Rightarrow> if errno \<noteq> 61 then ([SshConnect host], Raised e) else retry
         | AuthenticationException \<Rightarrow> retry
         | _ \<Rightarrow> ([SshConnect host], Raised e))"

text \<open>The failed connection attempts after which the loop sleeps and tries again.\<close>

definition retried :: "connect_answer \<Rightarrow> bool" where
  "retried a = (a = ConnectFailed SocketTimeout \<or> a = ConnectFailed (SocketError 61)
                \<or> a = ConnectFailed AuthenticationException)"

subsection \<open>Login\<close>

text \<open>
  \<^verbatim>\<open>
  def login_ec2(cluster_name, region, identity_file, user):
      connection = boto.ec2.connect_to_region(region_name=region)
      master_instance = next(iter(
          connection.get_only_instances(
              filters={
                  'instance.group-name': 'flintrock-' + cluster_name,
                  'tag:flintrock-role': 'master'
              })),
          None)
      if master_instance:
          ssh(user=user, host=master_instance.public_dns_name, identity_file=identity_file)
      else:
          raise Exception(
              "Could not find a master for a cluster named '{c}' in the {r} region.".format(
                  c=cluster_name, r=region))
  \<close>
\<close>

definition login_ec2 :: "world \<Rightarrow> string \<Rightarrow> string \<Rightarrow> string \<Rightarrow> string \<Rightarrow> unit run" where
  "login_ec2 w cluster_name region identity_file user =
     and_then
       (answer (get_only_instances w region
          [(''instance.group-name'', ''flintrock-'' @ cluster_name),
           (''tag:flintrock-role'', ''master'')]))
       (\<lambda>found.
          case found of
            master_instance # _ \<Rightarrow>
              emit [LocalSsh user (public_dns_name master_instance) identity_file]
          | [] \<Rightarrow>
              ([], Raised (Exception
                 (''Could not find a master for a cluster named '' @ [CHR 0x27]
                    @ cluster_name @ [CHR 0x27] @ '' in the '' @ region @ '' region.''))))"

subsection \<open>Security groups\<close>

text \<open>
  The provider's side of \<^verbatim>\<open>SecurityGroup.authorize\<close> and
  \<^verbatim>\<open>create_security_group\<close>: a request the provider rejects for a reason of its own
  raises that exception; a rule the group already has raises the duplicate-rule error;
  otherwise the rule is added, or the group is created with no rules.
\<close>

definition authorize ::
  "world \<Rightarrow> string \<Rightarrow> security_group_rule \<Rightarrow> sg_state \<Rightarrow> exn + sg_state" where
  "authorize w group_name rule st =
     (case authorize_fault w group_name rule of
        Some e \<Rightarrow> Inl e
      | None \<Rightarrow>
          (case map_of st group_name of
             None \<Rightarrow> Inl (EC2ResponseError ''InvalidGroup.NotFound'')
           | Some g \<Rightarrow>
               if rule \<in> set (sg_rules g)
               then Inl (EC2ResponseError ''InvalidPermission.Duplicate'')
               else Inr (AList.update group_name (g\<lparr>sg_rules := sg_rules g @ [rule]\<rparr>) st)))"

definition create_security_group ::
  "world \<Rightarrow> string \<Rightarrow> string \<Rightarrow> string option \<Rightarrow> sg_state \<Rightarrow> ((string \<times> string) \<times> sg_state) run"
  where
  "create_security_group w group_name description vpc_id st =
     (case create_group_fault w group_name of
        Some e \<Rightarrow> ([CreateSecurityGroup group_name description vpc_id], Raised e)
      | None \<Rightarrow>
          ([CreateSecurityGroup group_name description vpc_id],
           Returned
             ((group_name, new_group_id w group_name),
              AList.update group_name
                \<lparr>sg_id = new_group_id w group_name, sg_description = description,
                 sg_vpc_id = vpc_id, sg_rules = []\<rparr> st)))"

text \<open>
  The text of a rule in the message \<^verbatim>\<open>"Error adding rule: {r}"\<close>: the \<^verbatim>\<open>repr\<close> of the
  named tuple.
\<close>

definition repr_option :: "world \<Rightarrow> string option \<Rightarrow> string" where
  "repr_option w v = (case v of None \<Rightarrow> ''None'' | Some s \<Rightarrow> py_repr w s)"

definition repr_rule :: "world \<Rightarrow> security_group_rule \<Rightarrow> string" where
  "repr_rule w rule =
     ''SecurityGroupRule(ip_protocol='' @ py_repr w (ip_protocol rule)
       @ '', from_port='' @ str_int (from_port rule)
       @ '', to_port='' @ str_int (to_port rule)
       @ '', src_group=''
       @ (case src_group rule of None \<Rightarrow> ''None'' | Some g \<Rightarrow> ''SecurityGroup:'' @ g)
       @ '', cidr_ip='' @ repr_option w (cidr_ip rule) @ '')''"

text \<open>
  The body of the two loops over rules:
  \<^verbatim>\<open>
      try:
          group.authorize(**vars(rule))
      except boto.exception.EC2ResponseError as e:
          if e.error_code != 'InvalidPermission.Duplicate':
              print("Error adding rule: {r}".format(r=rule))
              raise
  \<close>
\<close>

definition authorize_rule ::
  "world \<Rightarrow> string \<Rightarrow> security_group_rule \<Rightarrow> sg_state \<Rightarrow> sg_state run" where
  "authorize_rule w group_name rule st =
     (case authorize w group_name rule st of
        Inr st' \<Rightarrow> ([Authorize group_name rule], Returned st')
      | Inl e \<Rightarrow>
          (case e of
             EC2ResponseError error_code \<Rightarrow>
               if error_code \<noteq> ''InvalidPermission.Duplicate''
               then ([Authorize group_name rule,
                      Print (''Error adding rule: '' @ repr_rule w rule)], Raised e)
               else ([Authorize group_name rule], Returned st)
           | _ \<Rightarrow> ([Authorize group_name rule], Raised e)))"

text \<open>\<^verbatim>\<open>for rule in rules: ...\<close> with that body.\<close>

fun authorize_rules ::
  "world \<Rightarrow> string \<Rightarrow> security_group_rule list \<Rightarrow> sg_state \<Rightarrow> sg_state run" where
  "authorize_rules w group_name [] st = ([], Returned st)"
| "authorize_rules w group_name (rule # rules) st =
     and_then (authorize_rule w group_name rule st) (authorize_rules w group_name rules)"

text \<open>Python's \<^verbatim>\<open>str.strip()\<close>, on the whitespace of ASCII.\<close>

definition py_isspace :: "char \<Rightarrow> bool" where
  "py_isspace c = (c \<in> set [CHR 0x09, CHR 0x0A, CHR 0x0B, CHR 0x0C, CHR 0x0D,
                            CHR 0x1C, CHR 0x1D, CHR 0x1E, CHR 0x1F, CHR 0x20])"

definition strip :: "string \<Rightarrow> string" where
  "strip s = rev (dropWhile py_isspace (rev (dropWhile py_isspace s)))"

definition client_rules :: "string \<Rightarrow> security_group_rule list" where
  "client_rules flintrock_client_cidr =
     [\<lparr>ip_protocol = ''tcp'', from_port = 22, to_port = 22,
       src_group = None, cidr_ip = Some flintrock_client_cidr\<rparr>,
      \<lparr>ip_protocol = ''tcp'', from_port = 8080, to_port = 8081,
       src_group = None, cidr_ip = Some flintrock_client_cidr\<rparr>,
      \<lparr>ip_protocol = ''tcp'', from_port = 4040, to_port = 4040,
       src_group = None, cidr_ip = Some flintrock_client_cidr\<rparr>]"

definition cluster_rules :: "string \<Rightarrow> security_group_rule list" where
  "cluster_rules cluster_group =
     [\<lparr>ip_protocol = ''icmp'', from_port = - 1, to_port = - 1,
       src_group = Some cluster_group, cidr_ip = None\<rparr>,
      \<lparr>ip_protocol = ''tcp'', from_port = 0, to_port = 65535,
       src_group = Some cluster_group, cidr_ip = None\<rparr>,
      \<lparr>ip_protocol = ''udp'', from_port = 0, to_port = 65535,
       src_group = Some cluster_group, cidr_ip = None\<rparr>]"

text \<open>
  \<^verbatim>\<open>next((sg for sg in search_results if sg.name == group_name), None)\<close> followed, where
  the program gets to it, by \<^verbatim>\<open>if not group: group = connection.create_security_group(...)\<close>.
  A group handle is its name and id.
\<close>

definition found_group :: "sg_state \<Rightarrow> string \<Rightarrow> (string \<times> string) option" where
  "found_group st group_name =
     (case map_of st group_name of None \<Rightarrow> None | Some g \<Rightarrow> Some (group_name, sg_id g))"

definition or_create ::
  "world \<Rightarrow> (string \<times> string) option \<Rightarrow> string \<Rightarrow> string \<Rightarrow> string option \<Rightarrow> sg_state
     \<Rightarrow> ((string \<times> string) \<times> sg_state) run" where
  "or_create w found group_name description vpc_id st =
     (case found of
        Some sg \<Rightarrow> ([], Returned (sg, st))
      | None \<Rightarrow> create_security_group w group_name description vpc_id st)"

text \<open>
  \<^verbatim>\<open>
  def get_or_create_ec2_security_groups(*, cluster_name, vpc_id, region):
      connection = boto.ec2.connect_to_region(region_name=region)
      flintrock_group_name = 'flintrock'
      cluster_group_name = 'flintrock-' + cluster_name
      search_results = connection.get_all_security_groups(
          filters={'group-name': [flintrock_group_name, cluster_group_name]})
      flintrock_group = next((sg for sg in search_results if sg.name == flintrock_group_name), None)
      cluster_group = next((sg for sg in search_results if sg.name == cluster_group_name), None)
      if not flintrock_group:
          flintrock_group = connection.create_security_group(
              name=flintrock_group_name, description="flintrock base group", vpc_id=vpc_id)
      flintrock_client_ip = (
          urllib.request.urlopen('http://checkip.amazonaws.com/').read().decode('utf-8').strip())
      flintrock_client_cidr = '{ip}/32'.format(ip=flintrock_client_ip)
      client_rules = [...]
      for rule in client_rules: ...
      if not cluster_group:
          cluster_group = connection.create_security_group(
              name=cluster_group_name, description="Flintrock cluster group", vpc_id=vpc_id)
      cluster_rules = [...]
      for rule in cluster_rules: ...
      return [flintrock_group, cluster_group]
  \<close>
  The function takes the provider's groups and returns them as it leaves them.
\<close>

definition get_or_create_ec2_security_groups ::
  "world \<Rightarrow> string \<Rightarrow> string option \<Rightarrow> string \<Rightarrow> sg_state
     \<Rightarrow> ((string \<times> string) list \<times> sg_state) run" where
  "get_or_create_ec2_security_groups w cluster_name vpc_id region st =
     (let flintrock_group_name = ''flintrock'';
          cluster_group_name = ''flintrock-'' @ cluster_name;
          found_flintrock = found_group st flintrock_group_name;
          found_cluster = found_group st cluster_group_name
      in
        and_then
          (or_create w found_flintrock flintrock_group_name ''flintrock base group'' vpc_id st)
          (\<lambda>(flintrock_group, st1).
        and_then (answer (checkip w))
          (\<lambda>body.
        and_then
          (authorize_rules w flintrock_group_name (client_rules (strip body @ ''/32'')) st1)
          (\<lambda>st2.
        and_then
          (or_create w found_cluster cluster_group_name ''Flintrock cluster group'' vpc_id st2)
          (\<lambda>(cluster_group, st3).
        and_then
          (authorize_rules w cluster_group_name (cluster_rules cluster_group_name) st3)
          (\<lambda>st4. ([], Returned ([flintrock_group, cluster_group], st4))))))))"

text \<open>
  Two notions for reasoning about the provider's groups: a rule is settled in a group when
  a request to authorize it is answered with the duplicate-rule error; a group grows from
  one state to another when it keeps its id and loses no rule.
\<close>

definition settled :: "world \<Rightarrow> string \<Rightarrow> security_group_rule \<Rightarrow> sg_state \<Rightarrow> bool" where
  "settled w group_name rule st =
     (authorize w group_name rule st = Inl (EC2ResponseError ''InvalidPermission.Duplicate''))"

definition grows_at :: "string \<Rightarrow> sg_state \<Rightarrow> sg_state \<Rightarrow> bool" where
  "grows_at group_name st st' =
     (case map_of st group_name of
        None \<Rightarrow> True
      | Some g \<Rightarrow>
          (case map_of st' group_name of
             None \<Rightarrow> False
           | Some g' \<Rightarrow> sg_id g' = sg_id g \<and> set (sg_rules g) \<subseteq> set (sg_rules g')))"

text \<open>
  For stating what the set-up leaves behind: the rules of a group, none for a group that
  does not exist; an authorization the provider does not reject for a reason of its own
  other than the duplicate-rule error; and the event of creating a group that is missing.
\<close>

definition rules_of :: "sg_state \<Rightarrow> string \<Rightarrow> security_group_rule list" where
  "rules_of st group_name =
     (case map_of st group_name of None \<Rightarrow> [] | Some g \<Rightarrow> sg_rules g)"

definition tolerated :: "world \<Rightarrow> string \<Rightarrow> security_group_rule \<Rightarrow> bool" where
  "tolerated w group_name rule =
     (authorize_fault w group_name rule = None
      \<or> authorize_fault w group_name rule = Some (EC2ResponseError ''InvalidPermission.Duplicate''))"

definition created :: "sg_state \<Rightarrow> string \<Rightarrow> string \<Rightarrow> string option \<Rightarrow> event list" where
  "created st group_name description vpc_id =
     (if map_of st group_name = None
      then [CreateSecurityGroup group_name description vpc_id] else [])"

subsection \<open>Templates\<close>

text \<open>
  \<^verbatim>\<open>
  def get_formatted_template(path: str, mapping: dict) -> str:
      class TemplateDict(dict):
          def __missing__(self, key):
              return '{' + key + '}'

      with open(path) as f:
          formatted = f.read().format_map(TemplateDict(**mapping))

      return formatted
  \<close>
  The mapping is an association list from names to the texts Python formats the values
  to. \<open>template_lookup\<close> is the subscription of a \<^verbatim>\<open>TemplateDict\<close>.
\<close>

definition template_lookup :: "(string \<times> string) list \<Rightarrow> string \<Rightarrow> string" where
  "template_lookup mapping key =
     (case map_of mapping key of
        Some v \<Rightarrow> v
      | None \<Rightarrow> CHR ''{'' # key @ ''}'')"

text \<open>
  A field name that Python takes for a position in the argument tuple: the empty name
  and a name of decimal digits. \<^verbatim>\<open>format_map\<close> has no argument tuple and raises
  \<^verbatim>\<open>ValueError\<close> for such a field.
\<close>

definition positional :: "string \<Rightarrow> bool" where
  "positional field_name = list_all (\<lambda>c. c \<in> set ''0123456789'') field_name"

text \<open>The characters that end the simple part of a field name other than the closing brace.\<close>

definition compound_char :: "char \<Rightarrow> bool" where
  "compound_char c = (c \<in> set ''!:.[{'')"

text \<open>
  \<^verbatim>\<open>str.format_map\<close>, as the scanner of CPython reads a format string from left to
  right. Outside a field (\<open>None\<close>): \<^verbatim>\<open>{{\<close> and \<^verbatim>\<open>}}\<close> stand for one brace, a single
  \<^verbatim>\<open>}\<close> and a \<^verbatim>\<open>{\<close> at the end raise \<^verbatim>\<open>ValueError\<close>, any other \<^verbatim>\<open>{\<close> opens a field,
  every other character is copied. Inside a field (\<open>Some\<close> of the name read so far): the
  closing brace ends it, and the value found for the name is copied; the text of the value
  is not scanned. The first exception from the left is the result.
\<close>

fun format_map ::
  "world \<Rightarrow> (string \<times> string) list \<Rightarrow> string option \<Rightarrow> string \<Rightarrow> exn + string" where
  "format_map w mapping None [] = Inr []"
| "format_map w mapping None (c # cs) =
     (if c = CHR ''{'' then
        (case cs of
           [] \<Rightarrow> Inl ValueError
         | d # ds \<Rightarrow>
             if d = CHR ''{''
             then (case format_map w mapping None ds of
                     Inl e \<Rightarrow> Inl e
                   | Inr out \<Rightarrow> Inr (CHR ''{'' # out))
             else format_map w mapping (Some []) cs)
      else if c = CHR ''}'' then
        (case cs of
           [] \<Rightarrow> Inl ValueError
         | d # ds \<Rightarrow>
             if d = CHR ''}''
             then (case format_map w mapping None ds of
                     Inl e \<Rightarrow> Inl e
                   | Inr out \<Rightarrow> Inr (CHR ''}'' # out))
             else Inl ValueError)
      else (case format_map w mapping None cs of
              Inl e \<Rightarrow> Inl e
            | Inr out \<Rightarrow> Inr (c # out)))"
| "format_map w mapping (Some field_name) [] = Inl ValueError"
| "format_map w mapping (Some field_name) (c # cs) =
     (if c = CHR ''}'' then
        (if positional field_name then Inl ValueError
         else (case format_map w mapping None cs of
                 Inl e \<Rightarrow> Inl e
               | Inr out \<Rightarrow> Inr (template_lookup mapping field_name @ out)))
      else if compound_char c then format_rest w mapping field_name (c # cs)
      else format_map w mapping (Some (field_name @ [c])) cs)"

definition get_formatted_template ::
  "world \<Rightarrow> string \<Rightarrow> (string \<times> string) list \<Rightarrow> exn + string" where
  "get_formatted_template w path mapping =
     (case read_file w path of
        Inl e \<Rightarrow> Inl e
      | Inr text \<Rightarrow> format_map w mapping None text)"

text \<open>
  Templates written as a sequence of literal texts and placeholders, to state what
  rendering does: a literal text has no brace; a placeholder has a name that is not a
  position and has none of the characters that end the simple part of a name.
\<close>

datatype token = Text string | Placeholder string

fun well_formed :: "token \<Rightarrow> bool" where
  "well_formed (Text s) = list_all (\<lambda>c. c \<noteq> CHR ''{'' \<and> c \<noteq> CHR ''}'') s"
| "well_formed (Placeholder key) =
     (\<not> positional key \<and> list_all (\<lambda>c. c \<noteq> CHR ''}'' \<and> \<not> compound_char c) key)"

fun template_text :: "token \<Rightarrow> string" where
  "template_text (Text s) = s"
| "template_text (Placeholder key) = CHR ''{'' # key @ ''}''"

fun rendered :: "(string \<times> string) list \<Rightarrow> token \<Rightarrow> string" where
  "rendered mapping (Text s) = s"
| "rendered mapping (Placeholder key) = template_lookup mapping key"

subsection \<open>Running scripts over SSH\<close>

text \<open>\<^verbatim>\<open>s.rstrip('\n')\<close>.\<close>

definition rstrip_newlines :: "string \<Rightarrow> string" where
  "rstrip_newlines s = rev (dropWhile (\<lambda>c. c = CHR 0x0A) (rev s))"

text \<open>
  \<^verbatim>\<open>
  def ssh_check_output(client: paramiko.client.SSHClient, command: str):
      stdin, stdout, stderr = client.exec_command(command, get_pty=True)
      exit_status = stdout.channel.recv_exit_status()
      if exit_status:
          raise Exception(
              stdout.read().decode("utf8").rstrip('\n') +
              stderr.read().decode("utf8").rstrip('\n'))
      return stdout.read().decode("utf8").rstrip('\n')
  \<close>
\<close>

definition ssh_check_output :: "world \<Rightarrow> string \<Rightarrow> command \<Rightarrow> string run" where
  "ssh_check_output w client c =
     (case exec_command w client c of
        None \<Rightarrow> ([SshExec client c], Waiting)
      | Some (exit_status, out, err) \<Rightarrow>
          if exit_status \<noteq> 0
          then ([SshExec client c],
                Raised (Exception (rstrip_newlines out @ rstrip_newlines err)))
          else ([SshExec client c], Returned (rstrip_newlines out)))"

text \<open>
  \<^verbatim>\<open>with client: ...\<close>: the client is closed when the block is left, by its end or by an
  exception.
\<close>

definition with_client :: "string \<Rightarrow> 'a run \<Rightarrow> 'a run" where
  "with_client client body =
     (case snd body of
        Waiting \<Rightarrow> body
      | _ \<Rightarrow> (fst body @ [SshClose client], snd body))"

text \<open>
  What \<^verbatim>\<open>except Exception\<close> catches: everything but \<^verbatim>\<open>KeyboardInterrupt\<close> and
  \<^verbatim>\<open>SystemExit\<close>.
\<close>

definition is_exception :: "exn \<Rightarrow> bool" where
  "is_exception e = (case e of KeyboardInterrupt \<Rightarrow> False | SystemExit code \<Rightarrow> False | _ \<Rightarrow> True)"

subsection \<open>The Spark module\<close>

text \<open>
  \<^verbatim>\<open>vars(cluster_info)\<close>, each value as the text \<^verbatim>\<open>format_map\<close> inserts for it: a text
  as it is, the key pair and the list of slave hosts by their \<^verbatim>\<open>str\<close>.
\<close>

definition cluster_info_vars :: "world \<Rightarrow> cluster_info \<Rightarrow> (string \<times> string) list" where
  "cluster_info_vars w ci =
     [(''name'', name ci),
      (''ssh_key_pair'',
       (case ssh_key_pair ci of
          None \<Rightarrow> ''None''
        | Some kp \<Rightarrow> ''KeyPair(public='' @ py_repr w (public_key kp)
                     @ '', private='' @ py_repr w (private_key kp) @ '')'')),
      (''master_host'', master_host ci),
      (''slave_hosts'', ''['' @ join '', '' (map (py_repr w) (slave_hosts ci)) @ '']''),
      (''spark_scratch_dir'', spark_scratch_dir ci),
      (''spark_master_opts'', spark_master_opts ci)]"

text \<open>
  \<^verbatim>\<open>
      def install(self, ssh_client, cluster_info):
          distribution = 'hadoop1'
          print("[{h}] Installing Spark...".format(
              h=ssh_client.get_transport().getpeername()[0]))
          try:
              ssh_check_output(
                  client=ssh_client,
                  command="""...""".format(
                          f=shlex.quote(
                              get_formatted_template(
                                  path='./install-spark.sh',
                                  mapping=vars(cluster_info))),
                          spark_version=shlex.quote(self.version),
                          distribution=shlex.quote(distribution)))
          except Exception as e:
              print(
                  "Could not find package for Spark {s} / {d}.".format(
                      s=self.version, d=distribution),
                  file=sys.stderr)
              raise
  \<close>
  \<^verbatim>\<open>shlex.quote(None)\<close> raises \<^verbatim>\<open>TypeError\<close>.
\<close>

definition spark_install ::
  "world \<Rightarrow> string option \<Rightarrow> string \<Rightarrow> cluster_info \<Rightarrow> unit run" where
  "spark_install w version ssh_client ci =
     and_then (emit [Print (''['' @ ssh_client @ ''] Installing Spark...'')])
       (\<lambda>_.
          let attempt =
                and_then
                  (answer (get_formatted_template w ''./install-spark.sh''
                             (cluster_info_vars w ci)))
                  (\<lambda>f. case version of
                          None \<Rightarrow> ([], Raised TypeError)
                        | Some v \<Rightarrow>
                            and_then (ssh_check_output w ssh_client (InstallSpark f v ''hadoop1''))
                              (\<lambda>_. emit []))
          in case snd attempt of
               Raised e \<Rightarrow>
                 if is_exception e
                 then (fst attempt
                         @ [PrintErr (''Could not find package for Spark ''
                              @ (case version of None \<Rightarrow> ''None'' | Some v \<Rightarrow> v)
                              @ '' / hadoop1.'')],
                       Raised e)
                 else attempt
             | _ \<Rightarrow> attempt)"

text \<open>
  \<^verbatim>\<open>
      def configure(self, ssh_client, cluster_info):
          template_path = "./spark/conf/spark-env.sh"
          ssh_check_output(
              client=ssh_client,
              command="""
                  echo {f} > {p}
              """.format(
                  f=shlex.quote(
                      get_formatted_template(
                          path="templates/" + template_path,
                          mapping=vars(cluster_info))),
                  p=shlex.quote(template_path)))
  \<close>
\<close>

definition spark_configure :: "world \<Rightarrow> string \<Rightarrow> cluster_info \<Rightarrow> unit run" where
  "spark_configure w ssh_client ci =
     and_then
       (answer (get_formatted_template w ''templates/./spark/conf/spark-env.sh''
                  (cluster_info_vars w ci)))
       (\<lambda>f. and_then (ssh_check_output w ssh_client (WriteSparkEnv f)) (\<lambda>_. emit []))"

text \<open>
  \<^verbatim>\<open>
      def configure_master(self, ssh_client, cluster_info):
          host = ssh_client.get_transport().getpeername()[0]
          print("[{h}] Configuring Spark master...".format(h=host))
          ssh_check_output(
              client=ssh_client,
              command="""...""".format(
                  s=shlex.quote('\n'.join(cluster_info.slave_hosts)),
                  m=shlex.quote(cluster_info.master_host)))
  \<close>
\<close>

definition spark_configure_master :: "world \<Rightarrow> string \<Rightarrow> cluster_info \<Rightarrow> unit run" where
  "spark_configure_master w ssh_client ci =
     and_then (emit [Print (''['' @ ssh_client @ ''] Configuring Spark master...'')])
       (\<lambda>_. and_then
               (ssh_check_output w ssh_client
                  (StartSparkMaster (slave_hosts ci) (master_host ci)))
               (\<lambda>_. emit []))"

text \<open>
  \<^verbatim>\<open>
      def health_check(self, master_host: str):
          spark_master_ui = 'http://{m}:8080/json/'.format(m=master_host)
          try:
              spark_ui_info = json.loads(
                  urllib.request.urlopen(spark_master_ui).read().decode('utf-8'))
          except Exception as e:
              print("Spark health check failed.", file=sys.stderr)
              raise
          print(textwrap.dedent("""...""".format(...)))
  \<close>
\<close>

definition spark_health_check :: "world \<Rightarrow> string \<Rightarrow> unit run" where
  "spark_health_check w master =
     (let spark_master_ui = ''http://'' @ master @ '':8080/json/''
      in case spark_ui w spark_master_ui of
           Inl e \<Rightarrow>
             if is_exception e
             then ([HttpGet spark_master_ui, PrintErr ''Spark health check failed.''], Raised e)
             else ([HttpGet spark_master_ui], Raised e)
         | Inr (Inl e) \<Rightarrow> ([HttpGet spark_master_ui], Raised e)
         | Inr (Inr report) \<Rightarrow> ([HttpGet spark_master_ui, Print report], Returned ()))"

text \<open>
  The methods of a module. The trace records when \<^verbatim>\<open>configure_master\<close> and
  \<^verbatim>\<open>health_check\<close> are entered and when they return.
\<close>

fun module_install ::
  "world \<Rightarrow> flintrock_module \<Rightarrow> string \<Rightarrow> cluster_info \<Rightarrow> unit run" where
  "module_install w (Spark version) ssh_client ci = spark_install w version ssh_client ci"

fun module_configure ::
  "world \<Rightarrow> flintrock_module \<Rightarrow> string \<Rightarrow> cluster_info \<Rightarrow> unit run" where
  "module_configure w (Spark version) ssh_client ci = spark_configure w ssh_client ci"

definition module_configure_master ::
  "world \<Rightarrow> flintrock_module \<Rightarrow> string \<Rightarrow> cluster_info \<Rightarrow> unit run" where
  "module_configure_master w m ssh_client ci =
     and_then (emit [Enter (ConfigureMaster m)])
       (\<lambda>_. and_then (case m of Spark version \<Rightarrow> spark_configure_master w ssh_client ci)
               (\<lambda>_. emit [Exit (ConfigureMaster m)]))"

definition module_health_check :: "world \<Rightarrow> flintrock_module \<Rightarrow> string \<Rightarrow> unit run" where
  "module_health_check w m master =
     and_then (emit [Enter (HealthCheck m)])
       (\<lambda>_. and_then (case m of Spark version \<Rightarrow> spark_health_check w master)
               (\<lambda>_. emit [Exit (HealthCheck m)]))"

subsection \<open>Provisioning a node\<close>

text \<open>
  \<^verbatim>\<open>
  def provision_ec2_node(*, modules, user, host, identity_file, cluster_info):
      client = get_ssh_client(
          user=user, host=host, identity_file=identity_file, print_status=True)
      with client:
          ssh_check_output(
              client=client,
              command="""...""".format(
                  private_key=shlex.quote(cluster_info.ssh_key_pair.private),
                  public_key=shlex.quote(cluster_info.ssh_key_pair.public)))
          java_home = ssh_check_output(client=client, command="""echo "$JAVA_HOME" """)
          if not java_home.strip():
              print("[{h}] Installing Java...".format(h=host))
              ssh_check_output(client=client, command="""...""")
          for module in modules:
              module.install(ssh_client=client, cluster_info=cluster_info)
              module.configure(ssh_client=client, cluster_info=cluster_info)
  \<close>
\<close>

definition provision_ec2_node ::
  "world \<Rightarrow> flintrock_module list \<Rightarrow> string \<Rightarrow> string \<Rightarrow> string \<Rightarrow> cluster_info \<Rightarrow> unit run"
  where
  "provision_ec2_node w modules user host identity_file ci =
     and_then (get_ssh_client user host identity_file True (connects w host))
       (\<lambda>client.
          with_client client
            (case ssh_key_pair ci of
               None \<Rightarrow> ([], Raised AttributeError)
             | Some kp \<Rightarrow>
                 and_then
                   (ssh_check_output w client (InstallKeys (private_key kp) (public_key kp)))
                   (\<lambda>_.
                 and_then (ssh_check_output w client EchoJavaHome)
                   (\<lambda>java_home.
                 and_then
                   (if strip java_home = []
                    then and_then (emit [Print (''['' @ host @ ''] Installing Java...'')])
                           (\<lambda>_. and_then (ssh_check_output w client InstallJava)
                                   (\<lambda>_. emit []))
                    else emit [])
                   (\<lambda>_.
                 for_each modules
                   (\<lambda>m. and_then (module_install w m client ci)
                           (\<lambda>_. module_configure w m client ci)))))))"

text \<open>
  \<^verbatim>\<open>
  def start_ec2_node(*, modules, user, host, identity_file, cluster_info):
      ssh_client = get_ssh_client(
          user=user, host=host, identity_file=identity_file, print_status=True)
      with ssh_client:
          for module in modules:
              module.configure(ssh_client=ssh_client, cluster_info=cluster_info)
  \<close>
\<close>

definition start_ec2_node ::
  "world \<Rightarrow> flintrock_module list \<Rightarrow> string \<Rightarrow> string \<Rightarrow> string \<Rightarrow> cluster_info \<Rightarrow> unit run"
  where
  "start_ec2_node w modules user host identity_file ci =
     and_then (get_ssh_client user host identity_file True (connects w host))
       (\<lambda>ssh_client.
          with_client ssh_client
            (for_each modules (\<lambda>m. module_configure w m ssh_client ci)))"

subsection \<open>Tasks on the thread pool\<close>

text \<open>
  \<^verbatim>\<open>
          tasks = []
          for instance in reservation.instances:
              task = loop.run_in_executor(None, functools.partial(provision_ec2_node, ...))
              tasks.append(task)
          done, _ = loop.run_until_complete(asyncio.wait(tasks))
          for future in done:
              future.result()
          loop.close()
  \<close>
  The tasks run on threads, so their events interleave. \<open>pool\<close> merges them as a
  schedule says: step \<open>0\<close> lets the main thread hand over the next task, step \<open>k + 1\<close> lets
  the task handed over as number \<open>k\<close> make its next event; a step that is not possible
  is skipped. When the schedule ends, what is left runs in order. Whatever the schedule,
  \<^verbatim>\<open>asyncio.wait\<close> returns when every future is done, and never if a task
  never ends.
\<close>

fun pool :: "nat list \<Rightarrow> (string \<times> event list) list \<Rightarrow> event list list \<Rightarrow> event list" where
  "pool [] pending running =
     map (\<lambda>t. Submit (fst t)) pending @ concat running @ concat (map snd pending)"
| "pool (k # ks) pending running =
     (case k of
        0 \<Rightarrow>
          (case pending of
             [] \<Rightarrow> pool ks pending running
           | t # later \<Rightarrow> Submit (fst t) # pool ks later (running @ [snd t]))
      | Suc j \<Rightarrow>
          if j < length running
          then (case running ! j of
                  [] \<Rightarrow> pool ks pending running
                | e # es \<Rightarrow> e # pool ks pending (running[j := es]))
          else pool ks pending running)"

text \<open>The events of a task, closed by the completion of its future if it ends.\<close>

definition task_events :: "string \<times> unit run \<Rightarrow> event list" where
  "task_events t =
     fst (snd t) @ (case snd (snd t) of Waiting \<Rightarrow> [] | _ \<Rightarrow> [Completed (fst t)])"

text \<open>
  The order in which the set \<^verbatim>\<open>done\<close> is iterated: a permutation of the task numbers,
  made from the order the world gives.
\<close>

definition done_sequence :: "nat list \<Rightarrow> nat \<Rightarrow> nat list" where
  "done_sequence order n =
     filter (\<lambda>k. k < n) (remdups order) @ filter (\<lambda>k. k \<notin> set order) [0..<n]"

definition first_raised :: "unit outcome list \<Rightarrow> exn option" where
  "first_raised results =
     (case filter (\<lambda>r. r \<noteq> Returned ()) results of
        Raised e # _ \<Rightarrow> Some e
      | _ \<Rightarrow> None)"

definition run_tasks :: "world \<Rightarrow> (string \<times> unit run) list \<Rightarrow> unit run" where
  "run_tasks w tasks =
     (let trace = pool (schedule w) (map (\<lambda>t. (fst t, task_events t)) tasks) [];
          results = map (\<lambda>t. snd (snd t)) tasks
      in if tasks = [] then ([], Raised ValueError)
         else if list_ex (\<lambda>r. r = Waiting) results then (trace, Waiting)
         else (case first_raised
                      (map (\<lambda>k. results ! k) (done_sequence (done_order w) (length tasks))) of
                 Some e \<Rightarrow> (trace, Raised e)
               | None \<Rightarrow> (trace, Returned ())))"

subsection \<open>Waiting for instances\<close>

text \<open>
  \<^verbatim>\<open>
          while True:
              for instance in reservation.instances:
                  if instance.state == 'running':
                      continue
                  else:
                      instance.update()
                      time.sleep(3)
                      break
              else:
                  break
  \<close>
  The first instance that is not in the target state is refreshed, and the scan starts
  again. The loop has no bound; the model follows it along the recorded answers of
  \<^verbatim>\<open>update()\<close>. A refreshed handle replaces the old one at its position.
\<close>

fun wait_for_state ::
  "string \<Rightarrow> ec2_instance list \<Rightarrow> (exn + ec2_instance) list \<Rightarrow> ec2_instance list run" where
  "wait_for_state target instances [] =
     (case dropWhile (\<lambda>i. state i = target) instances of
        [] \<Rightarrow> ([], Returned instances)
      | _ \<Rightarrow> ([], Waiting))"
| "wait_for_state target instances (a # answers) =
     (case dropWhile (\<lambda>i. state i = target) instances of
        [] \<Rightarrow> ([], Returned instances)
      | i # later \<Rightarrow>
          (case a of
             Inl e \<Rightarrow> ([], Raised e)
           | Inr refreshed \<Rightarrow>
               and_then
                 (emit [Update (length (takeWhile (\<lambda>i. state i = target) instances)) refreshed,
                        Sleep 3])
                 (\<lambda>_. wait_for_state target
                         (takeWhile (\<lambda>i. state i = target) instances @ refreshed # later)
                         answers)))"

text \<open>
  The handles as a trace shows them: a reservation gives the handles, a refresh replaces
  the handle at its position.
\<close>

fun observe :: "ec2_instance list \<Rightarrow> event \<Rightarrow> ec2_instance list" where
  "observe handles (RunInstances n ids reservation) = reservation"
| "observe handles (Update k refreshed) = handles[k := refreshed]"
| "observe handles e = handles"

definition handles_after :: "event list \<Rightarrow> ec2_instance list" where
  "handles_after trace = foldl observe [] trace"

subsection \<open>Launching a cluster\<close>

text \<open>
  The parameters of \<^verbatim>\<open>launch_ec2\<close> that only go into the request for instances.
  \<^verbatim>\<open>spot_price\<close> is accepted and not used.
\<close>

record instance_request =
  key_name :: "string option"
  instance_type :: string
  availability_zone :: "string option"
  ami :: "string option"
  spot_price :: "string option"
  subnet_id :: "string option"
  placement_group :: "string option"
  tenancy :: string
  ebs_optimized :: bool
  instance_initiated_shutdown_behavior :: string

text \<open>
  The \<^verbatim>\<open>timeit\<close> decorator prints after the function has returned, and not when it
  raises. An interrupt inside the \<^verbatim>\<open>try\<close> block of \<^verbatim>\<open>launch_ec2\<close> is turned into
  \<^verbatim>\<open>sys.exit(1)\<close>.
\<close>

definition timeit :: "string \<Rightarrow> world \<Rightarrow> 'a run \<Rightarrow> 'a run" where
  "timeit func w r =
     (case snd r of
        Returned x \<Rightarrow> (fst r @ [Print (func @ '' finished in '' @ elapsed w @ ''.'')], Returned x)
      | _ \<Rightarrow> r)"

definition on_keyboard_interrupt :: "unit run \<Rightarrow> unit run" where
  "on_keyboard_interrupt r =
     (case snd r of
        Raised KeyboardInterrupt \<Rightarrow> (fst r @ [Print ''Exiting...''], Raised (SystemExit 1))
      | _ \<Rightarrow> r)"

definition tag_instances :: "world \<Rightarrow> string list \<Rightarrow> (string \<times> string) list \<Rightarrow> unit run" where
  "tag_instances w resource_ids ts =
     (case create_tags w resource_ids ts of
        Some e \<Rightarrow> ([CreateTags resource_ids ts], Raised e)
      | None \<Rightarrow> ([CreateTags resource_ids ts], Returned ()))"

definition generate_ssh_key_pair :: "world \<Rightarrow> key_pair run" where
  "generate_ssh_key_pair w =
     (case ssh_keygen w of
        Inl e \<Rightarrow> ([GenerateKeyPair], Raised e)
      | Inr kp \<Rightarrow> ([GenerateKeyPair], Returned kp))"

text \<open>
  Lines 533 to 564 of \<^verbatim>\<open>launch_ec2\<close>: the request for \<^verbatim>\<open>num_slaves + 1\<close> instances in
  one call, the pause and the wait until every handle is \<^verbatim>\<open>running\<close>.
  \<^verbatim>\<open>
          print("Launching {c} instances...".format(c=num_slaves + 1))
          reservation = connection.run_instances(
              image_id=ami, min_count=(num_slaves + 1), max_count=(num_slaves + 1), ...
              security_group_ids=[sg.id for sg in security_groups], ...)
          time.sleep(10)  # AWS metadata eventual consistency tax.
          while True: ...
  \<close>
\<close>

definition launch_instances ::
  "world \<Rightarrow> int \<Rightarrow> (string \<times> string) list \<Rightarrow> ec2_instance list run" where
  "launch_instances w num_slaves security_groups =
     and_then (emit [Print (''Launching '' @ str_int (num_slaves + 1) @ '' instances...'')])
       (\<lambda>_.
     and_then (answer (run_instances w (num_slaves + 1)))
       (\<lambda>reservation.
     and_then (emit [RunInstances (num_slaves + 1) (map snd security_groups) reservation,
                     Sleep 10])
       (\<lambda>_. wait_for_state ''running'' reservation (updates w))))"

text \<open>
  Lines 566 to 586: the first handle is the master, the others are the slaves; both are
  tagged, and the cluster information is built with a new key pair.
  \<^verbatim>\<open>
          master_instance = reservation.instances[0]
          slave_instances = reservation.instances[1:]
          connection.create_tags(
              resource_ids=[master_instance.id],
              tags={'flintrock-role': 'master', 'Name': '{c}-master'.format(c=cluster_name)})
          connection.create_tags(
              resource_ids=[i.id for i in slave_instances],
              tags={'flintrock-role': 'slave', 'Name': '{c}-slave'.format(c=cluster_name)})
          cluster_info = ClusterInfo(
              name=cluster_name,
              ssh_key_pair=generate_ssh_key_pair(),
              master_host=master_instance.public_dns_name,
              slave_hosts=[instance.public_dns_name for instance in slave_instances],
              spark_scratch_dir='/mnt/spark',
              spark_master_opts="")
  \<close>
\<close>

definition launch_cluster_info ::
  "world \<Rightarrow> string \<Rightarrow> ec2_instance list \<Rightarrow> (ec2_instance \<times> cluster_info) run" where
  "launch_cluster_info w cluster_name instances =
     (case instances of
        [] \<Rightarrow> ([], Raised IndexError)
      | master_instance # slave_instances \<Rightarrow>
          and_then
            (tag_instances w [inst_id master_instance]
               [(''flintrock-role'', ''master''), (''Name'', cluster_name @ ''-master'')])
            (\<lambda>_.
          and_then
            (tag_instances w (map inst_id slave_instances)
               [(''flintrock-role'', ''slave''), (''Name'', cluster_name @ ''-slave'')])
            (\<lambda>_.
          and_then (generate_ssh_key_pair w)
            (\<lambda>kp.
               let ci = \<lparr>name = cluster_name, ssh_key_pair = Some kp,
                         master_host = public_dns_name master_instance,
                         slave_hosts = map public_dns_name slave_instances,
                         spark_scratch_dir = ''/mnt/spark'', spark_master_opts = []\<rparr>
               in ([BuildClusterInfo ci], Returned (master_instance, ci))))))"

text \<open>
  Lines 589 to 616: one task for each node on the thread pool, the wait for all of them,
  and the exception of a task that failed.
\<close>

definition provision_all ::
  "world \<Rightarrow> flintrock_module list \<Rightarrow> string \<Rightarrow> string \<Rightarrow> cluster_info \<Rightarrow> ec2_instance list
     \<Rightarrow> unit run" where
  "provision_all w modules user identity_file ci instances =
     and_then
       (run_tasks w
          (map (\<lambda>i. (ip_address i,
                      provision_ec2_node w modules user (ip_address i) identity_file ci))
             instances))
       (\<lambda>_. emit [Print (''All '' @ str_nat (length instances) @ '' instances provisioned.'')])"

text \<open>
  Lines 618 to 634: on the master, for every module in turn.
  \<^verbatim>\<open>
          master_ssh_client = get_ssh_client(
              user=user, host=master_instance.ip_address, identity_file=identity_file)
          with master_ssh_client:
              for module in modules:
                  module.configure_master(
                      ssh_client=master_ssh_client, cluster_info=cluster_info)
                  time.sleep(30)
                  module.health_check(master_host=cluster_info.master_host)
  \<close>
\<close>

definition bring_up_master ::
  "world \<Rightarrow> flintrock_module list \<Rightarrow> string \<Rightarrow> string \<Rightarrow> ec2_instance \<Rightarrow> cluster_info
     \<Rightarrow> unit run" where
  "bring_up_master w modules user identity_file master_instance ci =
     and_then
       (get_ssh_client user (ip_address master_instance) identity_file False
          (master_connects w (ip_address master_instance)))
       (\<lambda>master_ssh_client.
          with_client master_ssh_client
            (for_each modules
               (\<lambda>m. and_then (module_configure_master w m master_ssh_client ci)
                       (\<lambda>_. and_then (emit [Sleep 30])
                               (\<lambda>_. module_health_check w m (master_host ci))))))"

text \<open>
  \<^verbatim>\<open>
  @timeit
  def launch_ec2(*, cluster_name, num_slaves, modules, key_name, identity_file, ...):
      try:
          get_cluster_instances_ec2(cluster_name=cluster_name, region=region)
      except ClusterNotFound as e:
          pass
      else:
          print("Cluster already exists: {c}".format(c=cluster_name), file=sys.stderr)
          sys.exit(1)
      security_groups = get_or_create_ec2_security_groups(
          cluster_name=cluster_name, vpc_id=vpc_id, region=region)
      try:
          ...
      except KeyboardInterrupt as e:
          print("Exiting...")
          sys.exit(1)
  \<close>
\<close>

definition launch_body ::
  "world \<Rightarrow> string \<Rightarrow> int \<Rightarrow> flintrock_module list \<Rightarrow> string \<Rightarrow> string
     \<Rightarrow> (string \<times> string) list \<Rightarrow> unit run" where
  "launch_body w cluster_name num_slaves modules identity_file user security_groups =
     and_then (launch_instances w num_slaves security_groups)
       (\<lambda>instances.
     and_then (launch_cluster_info w cluster_name instances)
       (\<lambda>(master_instance, ci).
     and_then (provision_all w modules user identity_file ci instances)
       (\<lambda>_. bring_up_master w modules user identity_file master_instance ci)))"

definition launch_ec2 ::
  "world \<Rightarrow> string \<Rightarrow> int \<Rightarrow> flintrock_module list \<Rightarrow> string \<Rightarrow> string \<Rightarrow> string
     \<Rightarrow> string option \<Rightarrow> instance_request \<Rightarrow> unit run" where
  "launch_ec2 w cluster_name num_slaves modules identity_file region user vpc_id request =
     timeit ''launch_ec2'' w
       (case get_cluster_instances_ec2 w cluster_name region of
          Inr found \<Rightarrow>
            ([PrintErr (''Cluster already exists: '' @ cluster_name)], Raised (SystemExit 1))
        | Inl e \<Rightarrow>
            (case e of
               ClusterNotFound message \<Rightarrow>
                 and_then
                   (get_or_create_ec2_security_groups w cluster_name vpc_id region
                      (provider_groups w))
                   (\<lambda>(security_groups, groups_left).
                      on_keyboard_interrupt
                        (launch_body w cluster_name num_slaves modules identity_file user
                           security_groups))
             | _ \<Rightarrow> ([], Raised e)))"

subsection \<open>Destroying, stopping and starting a cluster\<close>

definition click_confirm :: "world \<Rightarrow> string \<Rightarrow> unit run" where
  "click_confirm w text =
     (if confirm w text then ([Confirm text True], Returned ())
      else ([Confirm text False], Raised Abort))"

definition call_instance ::
  "world \<Rightarrow> string \<Rightarrow> (string \<Rightarrow> event) \<Rightarrow> ec2_instance \<Rightarrow> unit run" where
  "call_instance w call ev i =
     (case instance_call w call (inst_id i) of
        Some e \<Rightarrow> ([ev (inst_id i)], Raised e)
      | None \<Rightarrow> ([ev (inst_id i)], Returned ()))"

text \<open>
  \<^verbatim>\<open>
  def destroy_ec2(*, cluster_name, assume_yes=True, region):
      connection = boto.ec2.connect_to_region(region_name=region)
      cluster_instances = connection.get_only_instances(
          filters={'instance.group-name': 'flintrock-' + cluster_name})
      # Should this be an error? ClusterNotFound exception?
      if not cluster_instances:
          print("No such cluster.")
          sys.exit(0)
      if not assume_yes:
          print_cluster_info_ec2(
              cluster_name=cluster_name, cluster_instances=cluster_instances)
          print('---')
          click.confirm(text="Are you sure you want to destroy this cluster?", abort=True)
      print("Terminating {c} instances...".format(c=len(cluster_instances)))
      for instance in cluster_instances:
          instance.terminate()
  \<close>
\<close>

definition destroy_ec2 :: "world \<Rightarrow> string \<Rightarrow> bool \<Rightarrow> string \<Rightarrow> unit run" where
  "destroy_ec2 w cluster_name assume_yes region =
     and_then (answer (get_only_instances w region (cluster_filter cluster_name)))
       (\<lambda>cluster_instances.
          if cluster_instances = []
          then ([Print ''No such cluster.''], Raised (SystemExit 0))
          else
            and_then
              (if \<not> assume_yes
               then and_then
                      (emit (print_cluster_info_ec2 cluster_name cluster_instances
                               @ [Print ''---'']))
                      (\<lambda>_. click_confirm w ''Are you sure you want to destroy this cluster?'')
               else emit [])
              (\<lambda>_.
            and_then
              (emit [Print (''Terminating '' @ str_nat (length cluster_instances)
                              @ '' instances...'')])
              (\<lambda>_. for_each cluster_instances (call_instance w ''terminate'' Terminate))))"

text \<open>
  \<^verbatim>\<open>
  @timeit
  def stop_ec2(cluster_name, region, assume_yes=True):
      connection = boto.ec2.connect_to_region(region_name=region)
      cluster_instances = connection.get_only_instances(
          filters={'instance.group-name': 'flintrock-' + cluster_name})
      # Should this be an error? ClusterNotFound exception?
      if not cluster_instances:
          print("No such cluster.")
          sys.exit(0)
      if not assume_yes:
          print_cluster_info_ec2(
              cluster_name=cluster_name, cluster_instances=cluster_instances)
          print('---')
          click.confirm(text="Are you sure you want to stop this cluster?", abort=True)
      print("Stopping {c} instances...".format(c=len(cluster_instances)))
      for instance in cluster_instances:
          instance.stop()
      while True:
          for instance in cluster_instances:
              if instance.state == 'stopped':
                  continue
              else:
                  instance.update()
                  time.sleep(3)
                  break
          else:
              print("{c} is now stopped.".format(c=cluster_name))
              break
  \<close>
\<close>

definition stop_ec2 :: "world \<Rightarrow> string \<Rightarrow> string \<Rightarrow> bool \<Rightarrow> unit run" where
  "stop_ec2 w cluster_name region assume_yes =
     timeit ''stop_ec2'' w
       (and_then (answer (get_only_instances w region (cluster_filter cluster_name)))
          (\<lambda>cluster_instances.
             if cluster_instances = []
             then ([Print ''No such cluster.''], Raised (SystemExit 0))
             else
               and_then
                 (if \<not> assume_yes
                  then and_then
                         (emit (print_cluster_info_ec2 cluster_name cluster_instances
                                  @ [Print ''---'']))
                         (\<lambda>_. click_confirm w ''Are you sure you want to stop this cluster?'')
                  else emit [])
                 (\<lambda>_.
               and_then
                 (emit [Print (''Stopping '' @ str_nat (length cluster_instances)
                                 @ '' instances...'')])
                 (\<lambda>_.
               and_then (for_each cluster_instances (call_instance w ''stop'' StopInstance))
                 (\<lambda>_.
               and_then (wait_for_state ''stopped'' cluster_instances (updates w))
                 (\<lambda>_. emit [Print (cluster_name @ '' is now stopped.'')]))))))"

text \<open>
  \<^verbatim>\<open>
  @timeit
  def start_ec2(*, cluster_name: str, region: str, identity_file: str, user: str):
      try:
          master_instance, slave_instances = get_cluster_instances_ec2(
              cluster_name=cluster_name, region=region)
          cluster_instances = [master_instance] + slave_instances
      except ClusterNotFound as e:
          print(e)
          sys.exit(0)
      print("Starting {c} instances...".format(c=len(cluster_instances)))
      for instance in cluster_instances:
          instance.start()
      while True: ...
      cluster_info = ClusterInfo(
          name=cluster_name, ssh_key_pair=None,
          master_host=master_instance.public_dns_name,
          slave_hosts=[i.public_dns_name for i in slave_instances],
          spark_scratch_dir='/mnt/spark', spark_master_opts="")
      spark = Spark(version='Who knows?!')
      modules = [spark]
      ... (one task of start_ec2_node for each instance, as in launch_ec2)
      master_ssh_client = get_ssh_client(
          user=user, host=master_instance.ip_address, identity_file=identity_file)
      with master_ssh_client:
          for module in modules:
              module.configure_master(ssh_client=master_ssh_client, cluster_info=cluster_info)
      time.sleep(30)
      spark.health_check(master_host=master_instance.ip_address)
  \<close>
  The handles the loop refreshes are the ones \<^verbatim>\<open>master_instance\<close> and
  \<^verbatim>\<open>slave_instances\<close> name, so after the loop the master is the first of the refreshed
  handles (the list of handles is never empty here).
\<close>

definition start_ec2 :: "world \<Rightarrow> string \<Rightarrow> string \<Rightarrow> string \<Rightarrow> string \<Rightarrow> unit run" where
  "start_ec2 w cluster_name region identity_file user =
     timeit ''start_ec2'' w
       (case get_cluster_instances_ec2 w cluster_name region of
          Inl e \<Rightarrow>
            (case e of
               ClusterNotFound message \<Rightarrow> ([Print message], Raised (SystemExit 0))
             | _ \<Rightarrow> ([], Raised e))
        | Inr (master_found, slaves_found) \<Rightarrow>
            and_then
              (emit [Print (''Starting '' @ str_nat (length (master_found # slaves_found))
                              @ '' instances...'')])
              (\<lambda>_.
            and_then
              (for_each (master_found # slaves_found) (call_instance w ''start'' StartInstance))
              (\<lambda>_.
            and_then (wait_for_state ''running'' (master_found # slaves_found) (updates w))
              (\<lambda>cluster_instances.
                 case cluster_instances of
                   [] \<Rightarrow> ([], Returned ())
                 | master_instance # slave_instances \<Rightarrow>
                     (let ci = \<lparr>name = cluster_name, ssh_key_pair = None,
                                master_host = public_dns_name master_instance,
                                slave_hosts = map public_dns_name slave_instances,
                                spark_scratch_dir = ''/mnt/spark'', spark_master_opts = []\<rparr>;
                          spark = Spark (Some ''Who knows?!'');
                          modules = [spark]
                      in
                        and_then (emit [BuildClusterInfo ci])
                          (\<lambda>_.
                        and_then
                          (run_tasks w
                             (map (\<lambda>i. (ip_address i,
                                         start_ec2_node w modules user (ip_address i)
                                           identity_file ci))
                                cluster_instances))
                          (\<lambda>_.
                        and_then
                          (get_ssh_client user (ip_address master_instance) identity_file False
                             (master_connects w (ip_address master_instance)))
                          (\<lambda>master_ssh_client.
                        and_then
                          (with_client master_ssh_client
                             (for_each modules
                                (\<lambda>m. module_configure_master w m master_ssh_client ci)))
                          (\<lambda>_.
                        and_then (emit [Sleep 30])
                          (\<lambda>_. module_health_check w spark (ip_address master_instance)))))))))))"

text \<open>A request with the defaults of the command line.\<close>

definition default_request :: instance_request where
  "default_request =
     \<lparr>key_name = None, instance_type = ''m3.medium'', availability_zone = None, ami = None,
      spot_price = None, subnet_id = None, placement_group = None, tenancy = ''default'',
      ebs_optimized = False, instance_initiated_shutdown_behavior = ''stop''\<rparr>"

section \<open>Properties\<close>

subsection \<open>Aggregated cluster state\<close>

lemma remdups_single:
  assumes "length (remdups xs) = 1"
  shows "\<forall>x\<in>set xs. x = hd (remdups xs)"
proof -
  from assms obtain y where y: "remdups xs = [y]"
    by (cases "remdups xs") auto
  then have "set xs = {y}"
    by (metis list.simps(15) empty_set set_remdups)
  with y show ?thesis by simp
qed

lemma length_remdups_states:
  "length (remdups (map state xs)) = card (state ` set xs)"
  by (simp add: length_remdups_card_conv)

text \<open>
  Claim C6. For a non-empty list of member instances, none of which reports the
  sentinel text \<open>inconsistent\<close> as its own state (the provider's states are pending,
  running, shutting-down, terminated, stopping and stopped), the aggregated state is
  \<open>inconsistent\<close> exactly when the members are in more than one distinct state, and
  otherwise it is the state every member is in.
\<close>

theorem get_cluster_state_ec2_aggregate:
  assumes "cluster_instances \<noteq> []"
    and "\<forall>i\<in>set cluster_instances. state i \<noteq> ''inconsistent''"
  shows "(get_cluster_state_ec2 cluster_instances = ''inconsistent''
            \<longleftrightarrow> 1 < card (state ` set cluster_instances))
       \<and> (\<not> 1 < card (state ` set cluster_instances)
            \<longrightarrow> (\<forall>i\<in>set cluster_instances.
                   state i = get_cluster_state_ec2 cluster_instances))"
proof -
  let ?n = "card (state ` set cluster_instances)"
  have pos: "0 < ?n"
    using assms(1) by (simp add: card_gt_0_iff)
  show ?thesis
  proof (cases "?n = 1")
    case True
    then have len: "length (remdups (map state cluster_instances)) = 1"
      by (simp add: length_remdups_states)
    have same: "\<forall>s\<in>set (map state cluster_instances).
                  s = hd (remdups (map state cluster_instances))"
      using remdups_single [OF len] .
    have res: "get_cluster_state_ec2 cluster_instances
                 = hd (remdups (map state cluster_instances))"
      using len by (simp add: get_cluster_state_ec2_def)
    obtain i where i: "i \<in> set cluster_instances"
      using assms(1) by (cases cluster_instances) auto
    have "state i = get_cluster_state_ec2 cluster_instances"
      using same i res by simp
    then have "get_cluster_state_ec2 cluster_instances \<noteq> ''inconsistent''"
      using assms(2) i by metis
    moreover have "\<forall>i\<in>set cluster_instances.
                     state i = get_cluster_state_ec2 cluster_instances"
      using same res by simp
    ultimately show ?thesis using True by simp
  next
    case False
    with pos have many: "1 < ?n" by simp
    then have "length (remdups (map state cluster_instances)) \<noteq> 1"
      by (simp add: length_remdups_states)
    then have "get_cluster_state_ec2 cluster_instances = ''inconsistent''"
      by (simp add: get_cluster_state_ec2_def)
    with many show ?thesis by simp
  qed
qed

theorem get_cluster_state_ec2_aggregate_witness:
  "(get_cluster_state_ec2
      [\<lparr>inst_id = ''i-1'', state = ''running'', public_dns_name = ''a'',
        ip_address = ''10.0.0.1'', tags = [], groups = []\<rparr>,
       \<lparr>inst_id = ''i-2'', state = ''stopped'', public_dns_name = ''b'',
        ip_address = ''10.0.0.2'', tags = [], groups = []\<rparr>] = ''inconsistent'')
   \<and> (get_cluster_state_ec2
      [\<lparr>inst_id = ''i-1'', state = ''running'', public_dns_name = ''a'',
        ip_address = ''10.0.0.1'', tags = [], groups = []\<rparr>,
       \<lparr>inst_id = ''i-2'', state = ''running'', public_dns_name = ''b'',
        ip_address = ''10.0.0.2'', tags = [], groups = []\<rparr>] = ''running'')"
proof -
  let ?a = "\<lparr>inst_id = ''i-1'', state = ''running'', public_dns_name = ''a'',
        ip_address = ''10.0.0.1'', tags = [], groups = []\<rparr>"
  let ?b = "\<lparr>inst_id = ''i-2'', state = ''stopped'', public_dns_name = ''b'',
        ip_address = ''10.0.0.2'', tags = [], groups = []\<rparr>"
  let ?c = "\<lparr>inst_id = ''i-2'', state = ''running'', public_dns_name = ''b'',
        ip_address = ''10.0.0.2'', tags = [], groups = []\<rparr>"
  have mixed: "1 < card (state ` set [?a, ?b])" by simp
  have same: "\<not> 1 < card (state ` set [?a, ?c])" by simp
  have "get_cluster_state_ec2 [?a, ?b] = ''inconsistent''"
    using get_cluster_state_ec2_aggregate [of "[?a, ?b]"] mixed by simp
  moreover have "get_cluster_state_ec2 [?a, ?c] = ''running''"
    using get_cluster_state_ec2_aggregate [of "[?a, ?c]"] same by simp
  ultimately show ?thesis by simp
qed

subsection \<open>Runs\<close>

lemma and_then_answer_Inr [simp]: "and_then (answer (Inr x)) f = f x"
  by (simp add: and_then_def answer_def)

lemma and_then_answer_Inl [simp]: "and_then (answer (Inl e)) f = ([], Raised e)"
  by (simp add: and_then_def answer_def)

lemma and_then_emit [simp]: "and_then (emit es) f = (es @ fst (f ()), snd (f ()))"
  by (simp add: and_then_def emit_def)

lemma str_nat_1 [simp]: "str_nat (Suc 0) = ''1''"
  by (subst str_nat.simps) simp

subsection \<open>What describe prints\<close>

text \<open>
  Claim C7, as the code has it. When the lookup answers, \<^verbatim>\<open>describe\<close> prints the number
  of clusters and then, for the clusters in the order of their names, one block each and
  nothing else: the cluster's name, its aggregated state and its node count, followed by
  the line of node hostnames when the aggregated state is \<open>running\<close> and by nothing when
  it is not.
\<close>

theorem describe_ec2_prints_cluster:
  assumes "get_only_instances w region (describe_filter cluster_name) = Inr cluster_instances"
  shows "describe_ec2 w cluster_name master_hostname_only region
           = (Print (str_nat (length (cluster_names_of cluster_instances)) @ '' cluster''
                       @ (if length (cluster_names_of cluster_instances) = 1 then [] else ''s'')
                       @ '' found.'')
              # (if cluster_names_of cluster_instances = [] then []
                 else Print ''---''
                      # concat (map (\<lambda>c.
                          [Print (c @ '':''),
                           Print (''  state: ''
                                    @ get_cluster_state_ec2 (members_of c cluster_instances)),
                           Print (''  node-count: ''
                                    @ str_nat (length (members_of c cluster_instances)))]
                          @ (if get_cluster_state_ec2 (members_of c cluster_instances)
                                  = ''running''
                             then [Print (join (CHR 0x0A # ''    - '')
                                     (''  nodes:''
                                        # map public_dns_name (members_of c cluster_instances)))]
                             else []))
                        (sort (cluster_names_of cluster_instances)))),
              Returned ())"
  using assms
  by (simp add: describe_ec2_def Let_def emit_def print_cluster_info_ec2_def)

lemma sort_ab: "sort [''b'', ''a''] = [''a'', ''b'']"
  by code_simp

theorem describe_ec2_prints_cluster_witness:
  "describe_ec2
     (quiet_world\<lparr>get_only_instances := (\<lambda>region filters. Inr
        [\<lparr>inst_id = ''i-1'', state = ''stopped'', public_dns_name = ''node1.example'',
          ip_address = ''10.0.0.1'', tags = [(''flintrock-role'', ''master'')],
          groups = [''flintrock'', ''flintrock-b'']\<rparr>,
         \<lparr>inst_id = ''i-2'', state = ''running'', public_dns_name = ''node2.example'',
          ip_address = ''10.0.0.2'', tags = [(''flintrock-role'', ''master'')],
          groups = [''flintrock'', ''flintrock-a'']\<rparr>])\<rparr>)
     None False ''us-east-1''
   = ([Print ''2 clusters found.'', Print ''---'',
       Print ''a:'', Print ''  state: running'', Print ''  node-count: 1'',
       Print (''  nodes:'' @ CHR 0x0A # ''    - node2.example''),
       Print ''b:'', Print ''  state: stopped'', Print ''  node-count: 1''],
      Returned ())"
  using describe_ec2_prints_cluster
    [of "quiet_world\<lparr>get_only_instances := (\<lambda>region filters. Inr
        [\<lparr>inst_id = ''i-1'', state = ''stopped'', public_dns_name = ''node1.example'',
          ip_address = ''10.0.0.1'', tags = [(''flintrock-role'', ''master'')],
          groups = [''flintrock'', ''flintrock-b'']\<rparr>,
         \<lparr>inst_id = ''i-2'', state = ''running'', public_dns_name = ''node2.example'',
          ip_address = ''10.0.0.2'', tags = [(''flintrock-role'', ''master'')],
          groups = [''flintrock'', ''flintrock-a'']\<rparr>])\<rparr>"
        "''us-east-1''" None
        "[\<lparr>inst_id = ''i-1'', state = ''stopped'', public_dns_name = ''node1.example'',
          ip_address = ''10.0.0.1'', tags = [(''flintrock-role'', ''master'')],
          groups = [''flintrock'', ''flintrock-b'']\<rparr>,
         \<lparr>inst_id = ''i-2'', state = ''running'', public_dns_name = ''node2.example'',
          ip_address = ''10.0.0.2'', tags = [(''flintrock-role'', ''master'')],
          groups = [''flintrock'', ''flintrock-a'']\<rparr>]"
        False]
  by (simp add: cluster_names_of_def members_of_def get_cluster_state_ec2_def sort_ab
      str_nat.simps)

text \<open>
  Claim C7 as the specification words it does not hold: for a cluster whose only node is
  stopped, \<^verbatim>\<open>describe\<close> prints name, state and node count and then stops; the hostname
  \<open>node1.example\<close> is not printed.
\<close>

theorem describe_ec2_stopped_counterexample:
  "fst (describe_ec2
          (quiet_world\<lparr>get_only_instances := (\<lambda>region filters. Inr
             [\<lparr>inst_id = ''i-1'', state = ''stopped'', public_dns_name = ''node1.example'',
               ip_address = ''10.0.0.1'', tags = [(''flintrock-role'', ''master'')],
               groups = [''flintrock'', ''flintrock-c'']\<rparr>])\<rparr>)
          (Some ''c'') False ''us-east-1'')
     = [Print ''1 cluster found.'', Print ''---'', Print ''c:'', Print ''  state: stopped'',
        Print ''  node-count: 1'']"
  by (simp add: describe_ec2_def cluster_names_of_def members_of_def
      print_cluster_info_ec2_def get_cluster_state_ec2_def emit_def)

subsection \<open>Looking a cluster up\<close>

lemma filter_by_role_master:
  "\<forall>i\<in>set xs. has_role i \<Longrightarrow>
     filter_by_role (\<lambda>role. role = ''master'') xs = Inr (filter is_master xs)"
  by (induction xs) (auto simp: has_role_def is_master_def)

lemma filter_by_role_not_master:
  "\<forall>i\<in>set xs. has_role i \<Longrightarrow>
     filter_by_role (\<lambda>role. role \<noteq> ''master'') xs = Inr (filter (\<lambda>i. \<not> is_master i) xs)"
  by (induction xs) (auto simp: has_role_def is_master_def)

lemma filter_by_role_untagged:
  "\<exists>i\<in>set xs. \<not> has_role i \<Longrightarrow> filter_by_role p xs = Inl (KeyError ''flintrock-role'')"
proof (induction xs)
  case Nil
  then show ?case by simp
next
  case (Cons a xs)
  show ?case
  proof (cases "map_of (tags a) ''flintrock-role''")
    case None
    then show ?thesis by simp
  next
    case (Some role)
    then have "\<exists>i\<in>set xs. \<not> has_role i"
      using Cons.prems by (auto simp: has_role_def)
    then have "filter_by_role p xs = Inl (KeyError ''flintrock-role'')"
      by (rule Cons.IH)
    with Some show ?thesis by simp
  qed
qed

lemma find_filter_hd:
  "filter P xs = y # ys \<Longrightarrow> find P xs = Some y"
  by (induction xs) (auto split: if_splits)

text \<open>
  Claim C10, as the code has it. The lookup has returned a non-empty list of instances.
  \<^item> If every instance carries a \<^verbatim>\<open>flintrock-role\<close> tag and some instance is tagged
    \<open>master\<close>, the operation returns the first master-tagged instance as the master and,
    as slaves, exactly the instances whose tag differs from \<open>master\<close>, in their order; a
    further master-tagged instance is in neither component.
  \<^item> If every instance carries the tag and none is tagged \<open>master\<close>, the unguarded index
    raises \<^verbatim>\<open>IndexError\<close>.
  \<^item> If some instance carries no \<^verbatim>\<open>flintrock-role\<close> tag, reading the tag raises
    \<^verbatim>\<open>KeyError\<close>, whatever the other instances are tagged.
\<close>

theorem get_cluster_instances_ec2_selects:
  assumes "get_only_instances w region (cluster_filter cluster_name) = Inr cluster_instances"
    and "cluster_instances \<noteq> []"
  shows "((\<forall>i\<in>set cluster_instances. has_role i) \<and> (\<exists>i\<in>set cluster_instances. is_master i)
            \<longrightarrow> (\<exists>m. find is_master cluster_instances = Some m
                   \<and> get_cluster_instances_ec2 w cluster_name region
                       = Inr (m, filter (\<lambda>i. \<not> is_master i) cluster_instances)))
       \<and> ((\<forall>i\<in>set cluster_instances. has_role i) \<and> \<not> (\<exists>i\<in>set cluster_instances. is_master i)
            \<longrightarrow> get_cluster_instances_ec2 w cluster_name region = Inl IndexError)
       \<and> (\<not> (\<forall>i\<in>set cluster_instances. has_role i)
            \<longrightarrow> get_cluster_instances_ec2 w cluster_name region = Inl (KeyError ''flintrock-role''))"
proof (intro conjI impI)
  assume a: "(\<forall>i\<in>set cluster_instances. has_role i) \<and> (\<exists>i\<in>set cluster_instances. is_master i)"
  then have "filter is_master cluster_instances \<noteq> []"
    by (auto simp: filter_empty_conv)
  then obtain m ms where ms: "filter is_master cluster_instances = m # ms"
    by (cases "filter is_master cluster_instances") auto
  have "get_cluster_instances_ec2 w cluster_name region
          = Inr (m, filter (\<lambda>i. \<not> is_master i) cluster_instances)"
    using assms a ms
    by (simp add: get_cluster_instances_ec2_def filter_by_role_master
        filter_by_role_not_master)
  with find_filter_hd [OF ms]
  show "\<exists>m. find is_master cluster_instances = Some m
           \<and> get_cluster_instances_ec2 w cluster_name region
               = Inr (m, filter (\<lambda>i. \<not> is_master i) cluster_instances)"
    by blast
next
  assume a: "(\<forall>i\<in>set cluster_instances. has_role i) \<and> \<not> (\<exists>i\<in>set cluster_instances. is_master i)"
  then have "filter is_master cluster_instances = []"
    by (auto simp: filter_empty_conv)
  then show "get_cluster_instances_ec2 w cluster_name region = Inl IndexError"
    using assms a
    by (simp add: get_cluster_instances_ec2_def filter_by_role_master)
next
  assume "\<not> (\<forall>i\<in>set cluster_instances. has_role i)"
  then show "get_cluster_instances_ec2 w cluster_name region = Inl (KeyError ''flintrock-role'')"
    using assms by (simp add: get_cluster_instances_ec2_def filter_by_role_untagged)
qed

theorem get_cluster_instances_ec2_selects_witness:
  "get_cluster_instances_ec2
     (quiet_world\<lparr>get_only_instances := (\<lambda>region filters. Inr
        [\<lparr>inst_id = ''i-1'', state = ''running'', public_dns_name = ''node1.example'',
          ip_address = ''10.0.0.1'', tags = [(''flintrock-role'', ''slave'')],
          groups = [''flintrock'', ''flintrock-c'']\<rparr>,
         \<lparr>inst_id = ''i-2'', state = ''running'', public_dns_name = ''node2.example'',
          ip_address = ''10.0.0.2'', tags = [(''flintrock-role'', ''master'')],
          groups = [''flintrock'', ''flintrock-c'']\<rparr>,
         \<lparr>inst_id = ''i-3'', state = ''running'', public_dns_name = ''node3.example'',
          ip_address = ''10.0.0.3'', tags = [(''flintrock-role'', ''master'')],
          groups = [''flintrock'', ''flintrock-c'']\<rparr>])\<rparr>)
     ''c'' ''us-east-1''
   = Inr (\<lparr>inst_id = ''i-2'', state = ''running'', public_dns_name = ''node2.example'',
          ip_address = ''10.0.0.2'', tags = [(''flintrock-role'', ''master'')],
          groups = [''flintrock'', ''flintrock-c'']\<rparr>,
         [\<lparr>inst_id = ''i-1'', state = ''running'', public_dns_name = ''node1.example'',
          ip_address = ''10.0.0.1'', tags = [(''flintrock-role'', ''slave'')],
          groups = [''flintrock'', ''flintrock-c'']\<rparr>])"
  using get_cluster_instances_ec2_selects
    [of "quiet_world\<lparr>get_only_instances := (\<lambda>region filters. Inr
        [\<lparr>inst_id = ''i-1'', state = ''running'', public_dns_name = ''node1.example'',
          ip_address = ''10.0.0.1'', tags = [(''flintrock-role'', ''slave'')],
          groups = [''flintrock'', ''flintrock-c'']\<rparr>,
         \<lparr>inst_id = ''i-2'', state = ''running'', public_dns_name = ''node2.example'',
          ip_address = ''10.0.0.2'', tags = [(''flintrock-role'', ''master'')],
          groups = [''flintrock'', ''flintrock-c'']\<rparr>,
         \<lparr>inst_id = ''i-3'', state = ''running'', public_dns_name = ''node3.example'',
          ip_address = ''10.0.0.3'', tags = [(''flintrock-role'', ''master'')],
          groups = [''flintrock'', ''flintrock-c'']\<rparr>])\<rparr>" "''us-east-1''" "''c''"]
  by (simp add: has_role_def is_master_def)

text \<open>
  Claim C10 as worded does not hold: a master-tagged instance is in the list, and yet
  the operation selects nothing, because the second instance has no role tag.
\<close>

theorem get_cluster_instances_ec2_untagged_counterexample:
  "get_cluster_instances_ec2
     (quiet_world\<lparr>get_only_instances := (\<lambda>region filters. Inr
        [\<lparr>inst_id = ''i-1'', state = ''running'', public_dns_name = ''node1.example'',
          ip_address = ''10.0.0.1'', tags = [(''flintrock-role'', ''master'')],
          groups = [''flintrock'', ''flintrock-c'']\<rparr>,
         \<lparr>inst_id = ''i-2'', state = ''running'', public_dns_name = ''node2.example'',
          ip_address = ''10.0.0.2'', tags = [],
          groups = [''flintrock'', ''flintrock-c'']\<rparr>])\<rparr>)
     ''c'' ''us-east-1''
   = Inl (KeyError ''flintrock-role'')"
  by (simp add: get_cluster_instances_ec2_def)

subsection \<open>Opening an SSH session\<close>

text \<open>
  After a timeout, a socket error with \<^verbatim>\<open>errno\<close> 61 or an authentication failure the
  loop sleeps five seconds and tries again; a run of such failures never raises.
\<close>

lemma get_ssh_client_retries:
  "list_all retried attempts \<Longrightarrow>
     get_ssh_client user host identity_file print_status (attempts @ rest)
       = (concat (map (\<lambda>_. [SshConnect host, Sleep 5]) attempts)
            @ fst (get_ssh_client user host identity_file print_status rest),
          snd (get_ssh_client user host identity_file print_status rest))"
  by (induction attempts) (auto simp: retried_def and_then_def emit_def)

lemma get_ssh_client_keeps_retrying:
  "list_all retried attempts \<Longrightarrow>
     snd (get_ssh_client user host identity_file print_status attempts) = Waiting"
  using get_ssh_client_retries [of attempts user host identity_file print_status "[]"]
  by simp

text \<open>
  Claim C9 at a refused connection on Linux, where \<^verbatim>\<open>ECONNREFUSED\<close> is 111: the first
  attempt is refused, and the exception is raised again instead of being retried, although
  the second attempt would have connected.
\<close>

theorem get_ssh_client_errno_111:
  "get_ssh_client ''ec2-user'' ''10.0.0.1'' ''key.pem'' False
     [ConnectFailed (SocketError 111), Connected]
   = ([SshConnect ''10.0.0.1''], Raised (SocketError 111))"
  by simp

subsection \<open>Security groups\<close>

lemma and_then_Returned:
  assumes "and_then r f = (es, Returned y)"
  obtains es1 x es2 where "r = (es1, Returned x)" and "f x = (es2, Returned y)"
    and "es = es1 @ es2"
  using assms by (cases r; cases "snd r") (auto simp: and_then_def prod_eq_iff)

lemma grows_at_refl: "grows_at g st st"
  by (simp add: grows_at_def split: option.splits)

lemma grows_at_trans: "grows_at g st st' \<Longrightarrow> grows_at g st' st'' \<Longrightarrow> grows_at g st st''"
  by (auto simp: grows_at_def split: option.splits)

lemma settled_grows: "settled w g r st \<Longrightarrow> grows_at g st st' \<Longrightarrow> settled w g r st'"
  by (auto simp: settled_def authorize_def grows_at_def split: option.splits if_splits)

lemma found_group_grows:
  "found_group st g = Some h \<Longrightarrow> grows_at g st st' \<Longrightarrow> found_group st' g = Some h"
  by (auto simp: found_group_def grows_at_def split: option.splits)

lemma authorize_grows: "authorize w g2 r st = Inr st' \<Longrightarrow> grows_at g st st'"
  by (auto simp: authorize_def grows_at_def update_conv' split: option.splits if_splits)

lemma authorize_rule_grows:
  "authorize_rule w g2 r st = (es, Returned st') \<Longrightarrow> grows_at g st st'"
  by (auto simp: authorize_rule_def grows_at_refl authorize_grows
           split: sum.splits exn.splits if_splits)

lemma authorize_rules_grows:
  "authorize_rules w g2 rs st = (es, Returned st') \<Longrightarrow> grows_at g st st'"
proof (induction rs arbitrary: st es)
  case Nil
  then show ?case by (simp add: grows_at_refl)
next
  case (Cons r rs)
  from Cons.prems obtain es1 st1 es2
    where 1: "authorize_rule w g2 r st = (es1, Returned st1)"
      and 2: "authorize_rules w g2 rs st1 = (es2, Returned st')"
    by (auto elim: and_then_Returned)
  from authorize_rule_grows [OF 1] Cons.IH [OF 2] show ?case
    by (rule grows_at_trans)
qed

lemma authorize_rule_settled:
  "authorize_rule w g r st = (es, Returned st') \<Longrightarrow> settled w g r st'"
  by (auto simp: authorize_rule_def settled_def authorize_def update_conv'
           split: sum.splits exn.splits if_splits option.splits)

lemma authorize_rules_settled:
  "authorize_rules w g rs st = (es, Returned st') \<Longrightarrow> \<forall>r\<in>set rs. settled w g r st'"
proof (induction rs arbitrary: st es)
  case Nil
  then show ?case by simp
next
  case (Cons r rs)
  from Cons.prems obtain es1 st1 es2
    where 1: "authorize_rule w g r st = (es1, Returned st1)"
      and 2: "authorize_rules w g rs st1 = (es2, Returned st')"
    by (auto elim: and_then_Returned)
  have "settled w g r st'"
    using authorize_rule_settled [OF 1] authorize_rules_grows [OF 2] by (rule settled_grows)
  with Cons.IH [OF 2] show ?case by simp
qed

lemma authorize_rule_noop:
  "settled w g r st \<Longrightarrow> authorize_rule w g r st = ([Authorize g r], Returned st)"
  by (simp add: settled_def authorize_rule_def)

lemma authorize_rules_noop:
  "\<forall>r\<in>set rs. settled w g r st \<Longrightarrow>
     authorize_rules w g rs st = (map (Authorize g) rs, Returned st)"
  by (induction rs) (simp_all add: authorize_rule_noop and_then_def)

lemma or_create_found:
  "or_create w (found_group st0 g) g d v st = (es, Returned (h, st')) \<Longrightarrow>
     grows_at g st0 st \<Longrightarrow> found_group st' g = Some h"
  by (cases "found_group st0 g")
     (auto simp: or_create_def create_security_group_def found_group_def update_conv' grows_at_def
           split: option.splits)

lemma or_create_other:
  "or_create w found g2 d v st = (es, Returned (h, st')) \<Longrightarrow> g \<noteq> g2 \<Longrightarrow> grows_at g st st'"
  by (cases found)
     (auto simp: or_create_def create_security_group_def update_conv' grows_at_def
           split: option.splits)

lemma flintrock_names_differ: "''flintrock'' \<noteq> ''flintrock-'' @ cluster_name"
  by simp


lemma authorize_rule_tolerated:
  assumes "map_of st g = Some grp" and "tolerated w g r"
  shows "\<exists>st' grp'. authorize_rule w g r st = ([Authorize g r], Returned st')
           \<and> map_of st' g = Some grp' \<and> sg_id grp' = sg_id grp
           \<and> set (sg_rules grp')
               = set (sg_rules grp) \<union> (if authorize_fault w g r = None then {r} else {})
           \<and> (\<forall>g'. g' \<noteq> g \<longrightarrow> map_of st' g' = map_of st g')"
  using assms
  by (auto simp: authorize_rule_def authorize_def tolerated_def update_conv')

lemma authorize_rules_tolerated:
  assumes "map_of st g = Some grp" and "\<forall>r\<in>set rs. tolerated w g r"
  shows "\<exists>st' grp'. authorize_rules w g rs st = (map (Authorize g) rs, Returned st')
           \<and> map_of st' g = Some grp' \<and> sg_id grp' = sg_id grp
           \<and> set (sg_rules grp')
               = set (sg_rules grp) \<union> set (filter (\<lambda>r. authorize_fault w g r = None) rs)
           \<and> (\<forall>g'. g' \<noteq> g \<longrightarrow> map_of st' g' = map_of st g')"
  using assms
proof (induction rs arbitrary: st grp)
  case Nil
  then show ?case by simp
next
  case (Cons r rs)
  from Cons.prems have "tolerated w g r" by simp
  from authorize_rule_tolerated [OF Cons.prems(1) this]
  obtain st1 grp1 where 1: "authorize_rule w g r st = ([Authorize g r], Returned st1)"
    and g1: "map_of st1 g = Some grp1" and id1: "sg_id grp1 = sg_id grp"
    and r1: "set (sg_rules grp1)
               = set (sg_rules grp) \<union> (if authorize_fault w g r = None then {r} else {})"
    and o1: "\<forall>g'. g' \<noteq> g \<longrightarrow> map_of st1 g' = map_of st g'"
    by blast
  from Cons.prems have "\<forall>r\<in>set rs. tolerated w g r" by simp
  from Cons.IH [OF g1 this]
  obtain st' grp' where 2: "authorize_rules w g rs st1 = (map (Authorize g) rs, Returned st')"
    and g2: "map_of st' g = Some grp'" and id2: "sg_id grp' = sg_id grp1"
    and r2: "set (sg_rules grp')
               = set (sg_rules grp1) \<union> set (filter (\<lambda>r. authorize_fault w g r = None) rs)"
    and o2: "\<forall>g'. g' \<noteq> g \<longrightarrow> map_of st' g' = map_of st1 g'"
    by blast
  have "authorize_rules w g (r # rs) st = (map (Authorize g) (r # rs), Returned st')"
    using 1 2 by (simp add: and_then_def)
  moreover have "set (sg_rules grp')
      = set (sg_rules grp) \<union> set (filter (\<lambda>r. authorize_fault w g r = None) (r # rs))"
    using r1 r2 by auto
  ultimately show ?case using g2 id1 id2 o1 o2 by auto
qed

lemma authorize_rules_raises:
  assumes "map_of st g = Some grp" and "\<forall>r'\<in>set before. tolerated w g r'"
    and "authorize_fault w g r = Some e"
    and "e \<noteq> EC2ResponseError ''InvalidPermission.Duplicate''"
  shows "snd (authorize_rules w g (before @ r # after) st) = Raised e"
  using assms(1,2)
proof (induction before arbitrary: st grp)
  case Nil
  have "snd (authorize_rule w g r st) = Raised e"
    using assms(3,4) by (cases e) (auto simp: authorize_rule_def authorize_def)
  then show ?case by (simp add: and_then_def split_beta)
next
  case (Cons r' before)
  from Cons.prems have "tolerated w g r'" by simp
  from authorize_rule_tolerated [OF Cons.prems(1) this]
  obtain st1 grp1 where 1: "authorize_rule w g r' st = ([Authorize g r'], Returned st1)"
    and g1: "map_of st1 g = Some grp1"
    by blast
  from Cons.prems have "\<forall>r'\<in>set before. tolerated w g r'" by simp
  from Cons.IH [OF g1 this] 1 show ?case
    by (simp add: and_then_def)
qed


lemma or_create_ok:
  assumes "create_group_fault w g = None" and "map_of st0 g = map_of st g"
  shows "\<exists>h st1 grp. or_create w (found_group st0 g) g d v st
                       = (created st0 g d v, Returned (h, st1))
           \<and> map_of st1 g = Some grp \<and> sg_rules grp = rules_of st0 g
           \<and> (\<forall>g'. g' \<noteq> g \<longrightarrow> map_of st1 g' = map_of st g')"
  using assms
  by (cases "map_of st g")
     (auto simp: or_create_def found_group_def create_security_group_def created_def
                 rules_of_def update_conv')

lemma or_create_raises:
  assumes "create_group_fault w g = Some e" and "map_of st0 g = None"
  shows "snd (or_create w (found_group st0 g) g d v st) = Raised e"
  using assms by (simp add: or_create_def found_group_def create_security_group_def)

lemma get_or_create_returns:
  assumes ip: "checkip w = Inr body"
    and cf: "create_group_fault w ''flintrock'' = None"
    and cc: "create_group_fault w (''flintrock-'' @ cluster_name) = None"
    and tf: "\<forall>r\<in>set (client_rules (strip body @ ''/32'')). tolerated w ''flintrock'' r"
    and tc: "\<forall>r\<in>set (cluster_rules (''flintrock-'' @ cluster_name)).
               tolerated w (''flintrock-'' @ cluster_name) r"
  shows "\<exists>handles st'.
           get_or_create_ec2_security_groups w cluster_name vpc_id region st
             = (created st ''flintrock'' ''flintrock base group'' vpc_id
                  @ map (Authorize ''flintrock'') (client_rules (strip body @ ''/32''))
                  @ created st (''flintrock-'' @ cluster_name) ''Flintrock cluster group'' vpc_id
                  @ map (Authorize (''flintrock-'' @ cluster_name))
                      (cluster_rules (''flintrock-'' @ cluster_name)),
                Returned (handles, st'))
           \<and> set (rules_of st' ''flintrock'')
               = set (rules_of st ''flintrock'')
                 \<union> set (filter (\<lambda>r. authorize_fault w ''flintrock'' r = None)
                          (client_rules (strip body @ ''/32'')))
           \<and> set (rules_of st' (''flintrock-'' @ cluster_name))
               = set (rules_of st (''flintrock-'' @ cluster_name))
                 \<union> set (filter (\<lambda>r. authorize_fault w (''flintrock-'' @ cluster_name) r = None)
                          (cluster_rules (''flintrock-'' @ cluster_name)))"
proof -
  let ?fg = "''flintrock''"
  let ?cg = "''flintrock-'' @ cluster_name"
  let ?cidr = "strip body @ ''/32''"
  have ne: "?fg \<noteq> ?cg" by simp
  from or_create_ok [OF cf refl, of st "''flintrock base group''" vpc_id]
  obtain h1 st1 grp1 where
      1: "or_create w (found_group st ?fg) ?fg ''flintrock base group'' vpc_id st
            = (created st ?fg ''flintrock base group'' vpc_id, Returned (h1, st1))"
    and g1: "map_of st1 ?fg = Some grp1" and r1: "sg_rules grp1 = rules_of st ?fg"
    and o1: "\<forall>g'. g' \<noteq> ?fg \<longrightarrow> map_of st1 g' = map_of st g'"
    by blast
  from authorize_rules_tolerated [OF g1 tf]
  obtain st2 grp2 where
      2: "authorize_rules w ?fg (client_rules ?cidr) st1
            = (map (Authorize ?fg) (client_rules ?cidr), Returned st2)"
    and g2: "map_of st2 ?fg = Some grp2"
    and r2: "set (sg_rules grp2)
               = set (sg_rules grp1)
                 \<union> set (filter (\<lambda>r. authorize_fault w ?fg r = None) (client_rules ?cidr))"
    and o2: "\<forall>g'. g' \<noteq> ?fg \<longrightarrow> map_of st2 g' = map_of st1 g'"
    by blast
  have same: "map_of st ?cg = map_of st2 ?cg"
    using o1 o2 ne by (metis (no_types))
  from or_create_ok [OF cc same, of "''Flintrock cluster group''" vpc_id]
  obtain h2 st3 grp3 where
      3: "or_create w (found_group st ?cg) ?cg ''Flintrock cluster group'' vpc_id st2
            = (created st ?cg ''Flintrock cluster group'' vpc_id, Returned (h2, st3))"
    and g3: "map_of st3 ?cg = Some grp3" and r3: "sg_rules grp3 = rules_of st ?cg"
    and o3: "\<forall>g'. g' \<noteq> ?cg \<longrightarrow> map_of st3 g' = map_of st2 g'"
    by blast
  from authorize_rules_tolerated [OF g3 tc]
  obtain st4 grp4 where
      4: "authorize_rules w ?cg (cluster_rules ?cg) st3
            = (map (Authorize ?cg) (cluster_rules ?cg), Returned st4)"
    and g4: "map_of st4 ?cg = Some grp4"
    and r4: "set (sg_rules grp4)
               = set (sg_rules grp3)
                 \<union> set (filter (\<lambda>r. authorize_fault w ?cg r = None) (cluster_rules ?cg))"
    and o4: "\<forall>g'. g' \<noteq> ?cg \<longrightarrow> map_of st4 g' = map_of st3 g'"
    by blast
  have f4: "map_of st4 ?fg = Some grp2"
    using o3 o4 g2 ne by (metis (no_types))
  have run: "get_or_create_ec2_security_groups w cluster_name vpc_id region st
             = (created st ?fg ''flintrock base group'' vpc_id
                  @ map (Authorize ?fg) (client_rules ?cidr)
                  @ created st ?cg ''Flintrock cluster group'' vpc_id
                  @ map (Authorize ?cg) (cluster_rules ?cg),
                Returned ([h1, h2], st4))"
    using 1 2 3 4 ip
    unfolding get_or_create_ec2_security_groups_def Let_def
    by (simp add: and_then_def answer_def)
  have "set (rules_of st4 ?fg)
          = set (rules_of st ?fg)
            \<union> set (filter (\<lambda>r. authorize_fault w ?fg r = None) (client_rules ?cidr))"
    using f4 r2 r1 by (simp add: rules_of_def)
  moreover have "set (rules_of st4 ?cg)
          = set (rules_of st ?cg)
            \<union> set (filter (\<lambda>r. authorize_fault w ?cg r = None) (cluster_rules ?cg))"
    using g4 r4 r3 by (simp add: rules_of_def)
  ultimately show ?thesis using run by blast
qed

lemma get_or_create_raises_client:
  assumes ip: "checkip w = Inr body"
    and cf: "create_group_fault w ''flintrock'' = None"
    and split: "client_rules (strip body @ ''/32'') = before @ r # after"
    and tf: "\<forall>r'\<in>set before. tolerated w ''flintrock'' r'"
    and fault: "authorize_fault w ''flintrock'' r = Some e"
    and other: "e \<noteq> EC2ResponseError ''InvalidPermission.Duplicate''"
  shows "snd (get_or_create_ec2_security_groups w cluster_name vpc_id region st) = Raised e"
proof -
  let ?fg = "''flintrock''"
  from or_create_ok [OF cf refl, of st "''flintrock base group''" vpc_id]
  obtain h1 st1 grp1 where
      1: "or_create w (found_group st ?fg) ?fg ''flintrock base group'' vpc_id st
            = (created st ?fg ''flintrock base group'' vpc_id, Returned (h1, st1))"
    and g1: "map_of st1 ?fg = Some grp1"
    by blast
  from authorize_rules_raises [OF g1 tf fault other, of after]
  have "snd (authorize_rules w ?fg (client_rules (strip body @ ''/32'')) st1) = Raised e"
    by (simp add: split)
  with 1 ip show ?thesis
    unfolding get_or_create_ec2_security_groups_def Let_def
    by (simp add: and_then_def answer_def split_beta)
qed

lemma get_or_create_raises_cluster:
  assumes ip: "checkip w = Inr body"
    and cf: "create_group_fault w ''flintrock'' = None"
    and cc: "create_group_fault w (''flintrock-'' @ cluster_name) = None"
    and tf: "\<forall>r\<in>set (client_rules (strip body @ ''/32'')). tolerated w ''flintrock'' r"
    and split: "cluster_rules (''flintrock-'' @ cluster_name) = before @ r # after"
    and tc: "\<forall>r'\<in>set before. tolerated w (''flintrock-'' @ cluster_name) r'"
    and fault: "authorize_fault w (''flintrock-'' @ cluster_name) r = Some e"
    and other: "e \<noteq> EC2ResponseError ''InvalidPermission.Duplicate''"
  shows "snd (get_or_create_ec2_security_groups w cluster_name vpc_id region st) = Raised e"
proof -
  let ?fg = "''flintrock''"
  let ?cg = "''flintrock-'' @ cluster_name"
  let ?cidr = "strip body @ ''/32''"
  have ne: "?fg \<noteq> ?cg" by simp
  from or_create_ok [OF cf refl, of st "''flintrock base group''" vpc_id]
  obtain h1 st1 grp1 where
      1: "or_create w (found_group st ?fg) ?fg ''flintrock base group'' vpc_id st
            = (created st ?fg ''flintrock base group'' vpc_id, Returned (h1, st1))"
    and g1: "map_of st1 ?fg = Some grp1"
    and o1: "\<forall>g'. g' \<noteq> ?fg \<longrightarrow> map_of st1 g' = map_of st g'"
    by blast
  from authorize_rules_tolerated [OF g1 tf]
  obtain st2 grp2 where
      2: "authorize_rules w ?fg (client_rules ?cidr) st1
            = (map (Authorize ?fg) (client_rules ?cidr), Returned st2)"
    and o2: "\<forall>g'. g' \<noteq> ?fg \<longrightarrow> map_of st2 g' = map_of st1 g'"
    by blast
  have same: "map_of st ?cg = map_of st2 ?cg"
    using o1 o2 ne by (metis (no_types))
  from or_create_ok [OF cc same, of "''Flintrock cluster group''" vpc_id]
  obtain h2 st3 grp3 where
      3: "or_create w (found_group st ?cg) ?cg ''Flintrock cluster group'' vpc_id st2
            = (created st ?cg ''Flintrock cluster group'' vpc_id, Returned (h2, st3))"
    and g3: "map_of st3 ?cg = Some grp3"
    by blast
  from authorize_rules_raises [OF g3 tc fault other, of after]
  have "snd (authorize_rules w ?cg (cluster_rules ?cg) st3) = Raised e"
    unfolding split .
  with 1 2 3 ip show ?thesis
    unfolding get_or_create_ec2_security_groups_def Let_def
    by (simp add: and_then_def answer_def split_beta)
qed


lemma settled_same_faults:
  "authorize_fault w2 = authorize_fault w \<Longrightarrow> settled w2 g r st = settled w g r st"
  by (simp add: settled_def authorize_def)

lemma get_or_create_twice:
  assumes "get_or_create_ec2_security_groups w cluster_name vpc_id region st
             = (es, Returned (handles, st'))"
    and ip: "checkip w = Inr body"
    and ip2: "checkip w2 = Inr body2" and same: "strip body2 = strip body"
    and faults: "authorize_fault w2 = authorize_fault w"
  shows "get_or_create_ec2_security_groups w2 cluster_name vpc_id region st'
           = (map (Authorize ''flintrock'') (client_rules (strip body @ ''/32''))
                @ map (Authorize (''flintrock-'' @ cluster_name))
                    (cluster_rules (''flintrock-'' @ cluster_name)),
              Returned (handles, st'))"
proof -
  let ?fg = "''flintrock''"
  let ?cg = "''flintrock-'' @ cluster_name"
  have ne: "?fg \<noteq> ?cg" by simp
  from assms(1) obtain e1 h1 st1 e1' where
      1: "or_create w (found_group st ?fg) ?fg ''flintrock base group'' vpc_id st
            = (e1, Returned (h1, st1))"
    and r1: "and_then (answer (checkip w))
          (\<lambda>body.
        and_then
          (authorize_rules w ?fg (client_rules (strip body @ ''/32'')) st1)
          (\<lambda>st2.
        and_then
          (or_create w (found_group st ?cg) ?cg ''Flintrock cluster group'' vpc_id st2)
          (\<lambda>(cluster_group, st3).
        and_then
          (authorize_rules w ?cg (cluster_rules ?cg) st3)
          (\<lambda>st4. ([], Returned ([h1, cluster_group], st4)))))) = (e1', Returned (handles, st'))"
    unfolding get_or_create_ec2_security_groups_def Let_def
    by (elim and_then_Returned) (auto split: prod.splits)
  let ?cidr = "strip body @ ''/32''"
  from r1 ip obtain e2 st2 e2' where
      2: "authorize_rules w ?fg (client_rules ?cidr) st1 = (e2, Returned st2)"
    and r2: "and_then
          (or_create w (found_group st ?cg) ?cg ''Flintrock cluster group'' vpc_id st2)
          (\<lambda>(cluster_group, st3).
        and_then
          (authorize_rules w ?cg (cluster_rules ?cg) st3)
          (\<lambda>st4. ([], Returned ([h1, cluster_group], st4)))) = (e2', Returned (handles, st'))"
    by (auto elim: and_then_Returned)
  from r2 obtain e3 h2 st3 e3' where
      3: "or_create w (found_group st ?cg) ?cg ''Flintrock cluster group'' vpc_id st2
            = (e3, Returned (h2, st3))"
    and r3: "and_then
          (authorize_rules w ?cg (cluster_rules ?cg) st3)
          (\<lambda>st4. ([], Returned ([h1, h2], st4))) = (e3', Returned (handles, st'))"
    by (elim and_then_Returned) (auto split: prod.splits)
  from r3 have 4: "authorize_rules w ?cg (cluster_rules ?cg) st3 = (e3', Returned st')"
    and handles: "handles = [h1, h2]"
    by (auto elim!: and_then_Returned)
  have g12: "\<And>g. grows_at g st1 st2" using 2 by (rule authorize_rules_grows)
  have g34: "\<And>g. grows_at g st3 st'" using 4 by (rule authorize_rules_grows)
  have g23: "grows_at ?fg st2 st3" using 3 ne by (rule or_create_other)
  have g01: "grows_at ?cg st st1" using 1 ne [symmetric] by (rule or_create_other)
  have f1: "found_group st1 ?fg = Some h1"
    using 1 grows_at_refl by (rule or_create_found)
  have ffg: "found_group st' ?fg = Some h1"
    using f1 g12 g23 g34 by (blast intro: found_group_grows)
  have "grows_at ?cg st st2" using g01 g12 by (rule grows_at_trans)
  with 3 have "found_group st3 ?cg = Some h2" by (rule or_create_found)
  then have fcg: "found_group st' ?cg = Some h2"
    using g34 by (rule found_group_grows)
  have "\<forall>r\<in>set (client_rules ?cidr). settled w ?fg r st2"
    using 2 by (rule authorize_rules_settled)
  then have "\<forall>r\<in>set (client_rules ?cidr). settled w ?fg r st'"
    using g23 g34 by (blast intro: settled_grows)
  then have sfg: "\<forall>r\<in>set (client_rules ?cidr). settled w2 ?fg r st'"
    by (simp add: settled_same_faults [OF faults])
  have "\<forall>r\<in>set (cluster_rules ?cg). settled w ?cg r st'"
    using 4 by (rule authorize_rules_settled)
  then have scg: "\<forall>r\<in>set (cluster_rules ?cg). settled w2 ?cg r st'"
    by (simp add: settled_same_faults [OF faults])
  show ?thesis
    using ffg fcg ip2 same handles authorize_rules_noop [OF sfg] authorize_rules_noop [OF scg]
    unfolding get_or_create_ec2_security_groups_def Let_def
    by (simp add: or_create_def and_then_def answer_def)
qed

text \<open>
  Claim C3, as the code has it. Let the client address be read and the creation of a
  missing group not be rejected.
  \<^item> If every authorization of a client-ingress or intra-cluster rule is answered with
    success or with the duplicate-rule error, the set-up returns; it has asked for all six
    rules in their order, whichever of them were duplicates, and each group ends with the
    rules it had and the rules of its set that the provider did not report as duplicates.
  \<^item> If the authorization of a rule is answered with any other error, and those before it
    were not, the set-up raises that error to its caller.
  \<^item> When the set-up has returned, running it again with the same client address and the
    same answers of the provider to authorizations creates no group, has all six
    authorizations answered as duplicates, and returns the same handles and the same
    groups with the same rules.
\<close>

theorem security_group_rules_idempotent:
  assumes "checkip w = Inr body"
  shows "(create_group_fault w ''flintrock'' = None
          \<and> create_group_fault w (''flintrock-'' @ cluster_name) = None
          \<and> (\<forall>r\<in>set (client_rules (strip body @ ''/32'')). tolerated w ''flintrock'' r)
          \<and> (\<forall>r\<in>set (cluster_rules (''flintrock-'' @ cluster_name)).
                tolerated w (''flintrock-'' @ cluster_name) r)
          \<longrightarrow> (\<exists>handles st'.
                 get_or_create_ec2_security_groups w cluster_name vpc_id region st
                   = (created st ''flintrock'' ''flintrock base group'' vpc_id
                        @ map (Authorize ''flintrock'') (client_rules (strip body @ ''/32''))
                        @ created st (''flintrock-'' @ cluster_name)
                            ''Flintrock cluster group'' vpc_id
                        @ map (Authorize (''flintrock-'' @ cluster_name))
                            (cluster_rules (''flintrock-'' @ cluster_name)),
                      Returned (handles, st'))
                 \<and> set (rules_of st' ''flintrock'')
                     = set (rules_of st ''flintrock'')
                       \<union> set (filter (\<lambda>r. authorize_fault w ''flintrock'' r = None)
                                (client_rules (strip body @ ''/32'')))
                 \<and> set (rules_of st' (''flintrock-'' @ cluster_name))
                     = set (rules_of st (''flintrock-'' @ cluster_name))
                       \<union> set (filter
                                (\<lambda>r. authorize_fault w (''flintrock-'' @ cluster_name) r = None)
                                (cluster_rules (''flintrock-'' @ cluster_name)))))
       \<and> (create_group_fault w ''flintrock'' = None
          \<and> client_rules (strip body @ ''/32'') = before @ r # after
          \<and> (\<forall>r'\<in>set before. tolerated w ''flintrock'' r')
          \<and> authorize_fault w ''flintrock'' r = Some e
          \<and> e \<noteq> EC2ResponseError ''InvalidPermission.Duplicate''
          \<longrightarrow> snd (get_or_create_ec2_security_groups w cluster_name vpc_id region st)
                = Raised e)
       \<and> (create_group_fault w ''flintrock'' = None
          \<and> create_group_fault w (''flintrock-'' @ cluster_name) = None
          \<and> (\<forall>r\<in>set (client_rules (strip body @ ''/32'')). tolerated w ''flintrock'' r)
          \<and> cluster_rules (''flintrock-'' @ cluster_name) = before @ r # after
          \<and> (\<forall>r'\<in>set before. tolerated w (''flintrock-'' @ cluster_name) r')
          \<and> authorize_fault w (''flintrock-'' @ cluster_name) r = Some e
          \<and> e \<noteq> EC2ResponseError ''InvalidPermission.Duplicate''
          \<longrightarrow> snd (get_or_create_ec2_security_groups w cluster_name vpc_id region st)
                = Raised e)
       \<and> (get_or_create_ec2_security_groups w cluster_name vpc_id region st
            = (es, Returned (handles, st1))
          \<and> checkip w2 = Inr body2 \<and> strip body2 = strip body
          \<and> authorize_fault w2 = authorize_fault w
          \<longrightarrow> get_or_create_ec2_security_groups w2 cluster_name vpc_id region st1
                = (map (Authorize ''flintrock'') (client_rules (strip body @ ''/32''))
                     @ map (Authorize (''flintrock-'' @ cluster_name))
                         (cluster_rules (''flintrock-'' @ cluster_name)),
                   Returned (handles, st1)))"
proof (intro conjI impI)
  assume "create_group_fault w ''flintrock'' = None
          \<and> create_group_fault w (''flintrock-'' @ cluster_name) = None
          \<and> (\<forall>r\<in>set (client_rules (strip body @ ''/32'')). tolerated w ''flintrock'' r)
          \<and> (\<forall>r\<in>set (cluster_rules (''flintrock-'' @ cluster_name)).
                tolerated w (''flintrock-'' @ cluster_name) r)"
  with assms show "\<exists>handles st'.
                 get_or_create_ec2_security_groups w cluster_name vpc_id region st
                   = (created st ''flintrock'' ''flintrock base group'' vpc_id
                        @ map (Authorize ''flintrock'') (client_rules (strip body @ ''/32''))
                        @ created st (''flintrock-'' @ cluster_name)
                            ''Flintrock cluster group'' vpc_id
                        @ map (Authorize (''flintrock-'' @ cluster_name))
                            (cluster_rules (''flintrock-'' @ cluster_name)),
                      Returned (handles, st'))
                 \<and> set (rules_of st' ''flintrock'')
                     = set (rules_of st ''flintrock'')
                       \<union> set (filter (\<lambda>r. authorize_fault w ''flintrock'' r = None)
                                (client_rules (strip body @ ''/32'')))
                 \<and> set (rules_of st' (''flintrock-'' @ cluster_name))
                     = set (rules_of st (''flintrock-'' @ cluster_name))
                       \<union> set (filter
                                (\<lambda>r. authorize_fault w (''flintrock-'' @ cluster_name) r = None)
                                (cluster_rules (''flintrock-'' @ cluster_name)))"
    by (intro get_or_create_returns) blast+
next
  assume "create_group_fault w ''flintrock'' = None
          \<and> client_rules (strip body @ ''/32'') = before @ r # after
          \<and> (\<forall>r'\<in>set before. tolerated w ''flintrock'' r')
          \<and> authorize_fault w ''flintrock'' r = Some e
          \<and> e \<noteq> EC2ResponseError ''InvalidPermission.Duplicate''"
  with assms show "snd (get_or_create_ec2_security_groups w cluster_name vpc_id region st)
                     = Raised e"
    by (intro get_or_create_raises_client [where before = before and r = r and after = after])
       blast+
next
  assume "create_group_fault w ''flintrock'' = None
          \<and> create_group_fault w (''flintrock-'' @ cluster_name) = None
          \<and> (\<forall>r\<in>set (client_rules (strip body @ ''/32'')). tolerated w ''flintrock'' r)
          \<and> cluster_rules (''flintrock-'' @ cluster_name) = before @ r # after
          \<and> (\<forall>r'\<in>set before. tolerated w (''flintrock-'' @ cluster_name) r')
          \<and> authorize_fault w (''flintrock-'' @ cluster_name) r = Some e
          \<and> e \<noteq> EC2ResponseError ''InvalidPermission.Duplicate''"
  with assms show "snd (get_or_create_ec2_security_groups w cluster_name vpc_id region st)
                     = Raised e"
    by (intro get_or_create_raises_cluster [where before = before and r = r and after = after])
       blast+
next
  assume "get_or_create_ec2_security_groups w cluster_name vpc_id region st
            = (es, Returned (handles, st1))
          \<and> checkip w2 = Inr body2 \<and> strip body2 = strip body
          \<and> authorize_fault w2 = authorize_fault w"
  with assms show "get_or_create_ec2_security_groups w2 cluster_name vpc_id region st1
                = (map (Authorize ''flintrock'') (client_rules (strip body @ ''/32''))
                     @ map (Authorize (''flintrock-'' @ cluster_name))
                         (cluster_rules (''flintrock-'' @ cluster_name)),
                   Returned (handles, st1))"
    by (intro get_or_create_twice [where w = w and st = st and es = es and ?body2.0 = body2])
       blast+
qed

lemma strip_address [simp]: "strip ''203.0.113.7'' = ''203.0.113.7''"
  by (simp add: strip_def py_isspace_def)

theorem security_group_rules_idempotent_witness:
  "(\<exists>handles st'.
      get_or_create_ec2_security_groups quiet_world ''c'' None ''us-east-1''
        [(''flintrock'', \<lparr>sg_id = ''sg-1'', sg_description = ''flintrock base group'',
            sg_vpc_id = None,
            sg_rules = [\<lparr>ip_protocol = ''tcp'', from_port = 8080, to_port = 8081,
                         src_group = None, cidr_ip = Some ''203.0.113.7/32''\<rparr>]\<rparr>)]
        = (map (Authorize ''flintrock'') (client_rules ''203.0.113.7/32'')
             @ CreateSecurityGroup ''flintrock-c'' ''Flintrock cluster group'' None
             # map (Authorize ''flintrock-c'') (cluster_rules ''flintrock-c''),
           Returned (handles, st'))
      \<and> set (rules_of st' ''flintrock'') = set (client_rules ''203.0.113.7/32'')
      \<and> set (rules_of st' ''flintrock-c'') = set (cluster_rules ''flintrock-c''))
   \<and> snd (get_or_create_ec2_security_groups
            (quiet_world\<lparr>authorize_fault :=
               (\<lambda>group_name rule.
                  if from_port rule = 8080
                  then Some (EC2ResponseError ''RulesPerSecurityGroupLimitExceeded'')
                  else None)\<rparr>)
            ''c'' None ''us-east-1'' [])
       = Raised (EC2ResponseError ''RulesPerSecurityGroupLimitExceeded'')
   \<and> snd (get_or_create_ec2_security_groups
            (quiet_world\<lparr>authorize_fault :=
               (\<lambda>group_name rule.
                  if ip_protocol rule = ''udp'' then Some SocketTimeout else None)\<rparr>)
            ''c'' None ''us-east-1'' [])
       = Raised SocketTimeout
   \<and> (\<exists>es handles st1.
         get_or_create_ec2_security_groups quiet_world ''c'' None ''us-east-1'' []
           = (es, Returned (handles, st1))
         \<and> get_or_create_ec2_security_groups
             (quiet_world\<lparr>checkip := Inr (''203.0.113.7'' @ [CHR 0x0A]),
                          create_group_fault := (\<lambda>group_name. Some (EC2ResponseError ''x''))\<rparr>)
             ''c'' None ''us-east-1'' st1
             = (map (Authorize ''flintrock'') (client_rules ''203.0.113.7/32'')
                  @ map (Authorize ''flintrock-c'') (cluster_rules ''flintrock-c''),
                Returned (handles, st1)))"
proof -
  let ?r8080 = "\<lparr>ip_protocol = ''tcp'', from_port = 8080, to_port = 8081,
                  src_group = None, cidr_ip = Some ''203.0.113.7/32''\<rparr>"
  let ?st = "[(''flintrock'', \<lparr>sg_id = ''sg-1'', sg_description = ''flintrock base group'',
                 sg_vpc_id = None, sg_rules = [?r8080]\<rparr>)]"
  let ?w2 = "quiet_world\<lparr>authorize_fault :=
               (\<lambda>group_name rule.
                  if from_port rule = 8080
                  then Some (EC2ResponseError ''RulesPerSecurityGroupLimitExceeded'')
                  else None)\<rparr>"
  let ?w3 = "quiet_world\<lparr>authorize_fault :=
               (\<lambda>group_name rule.
                  if ip_protocol rule = ''udp'' then Some SocketTimeout else None)\<rparr>"
  let ?w4 = "quiet_world\<lparr>checkip := Inr (''203.0.113.7'' @ [CHR 0x0A]),
                          create_group_fault := (\<lambda>group_name. Some (EC2ResponseError ''x''))\<rparr>"
  have ip: "checkip quiet_world = Inr ''203.0.113.7''"
    by (simp add: quiet_world_def)
  have a: "\<exists>handles st'.
      get_or_create_ec2_security_groups quiet_world ''c'' None ''us-east-1'' ?st
        = (map (Authorize ''flintrock'') (client_rules ''203.0.113.7/32'')
             @ CreateSecurityGroup ''flintrock-c'' ''Flintrock cluster group'' None
             # map (Authorize ''flintrock-c'') (cluster_rules ''flintrock-c''),
           Returned (handles, st'))
      \<and> set (rules_of st' ''flintrock'') = set (client_rules ''203.0.113.7/32'')
      \<and> set (rules_of st' ''flintrock-c'') = set (cluster_rules ''flintrock-c'')"
    using security_group_rules_idempotent
      [where w = quiet_world and body = "''203.0.113.7''" and cluster_name = "''c''"
         and vpc_id = None and region = "''us-east-1''" and st = ?st, OF ip, THEN conjunct1]
    by (simp add: quiet_world_def tolerated_def created_def rules_of_def client_rules_def
        cluster_rules_def insert_commute)
  have b: "snd (get_or_create_ec2_security_groups ?w2 ''c'' None ''us-east-1'' [])
             = Raised (EC2ResponseError ''RulesPerSecurityGroupLimitExceeded'')"
    using security_group_rules_idempotent
      [where w = ?w2 and body = "''203.0.113.7''" and cluster_name = "''c''"
         and vpc_id = None and region = "''us-east-1''" and st = "[]"
         and before = "[\<lparr>ip_protocol = ''tcp'', from_port = 22, to_port = 22,
                          src_group = None, cidr_ip = Some ''203.0.113.7/32''\<rparr>]"
         and r = ?r8080
         and after = "[\<lparr>ip_protocol = ''tcp'', from_port = 4040, to_port = 4040,
                         src_group = None, cidr_ip = Some ''203.0.113.7/32''\<rparr>]"
         and e = "EC2ResponseError ''RulesPerSecurityGroupLimitExceeded''",
       THEN conjunct2, THEN conjunct1]
    by (simp add: quiet_world_def tolerated_def client_rules_def)
  have c: "snd (get_or_create_ec2_security_groups ?w3 ''c'' None ''us-east-1'' [])
             = Raised SocketTimeout"
    using security_group_rules_idempotent
      [where w = ?w3 and body = "''203.0.113.7''" and cluster_name = "''c''"
         and vpc_id = None and region = "''us-east-1''" and st = "[]"
         and before = "[\<lparr>ip_protocol = ''icmp'', from_port = - 1, to_port = - 1,
                          src_group = Some ''flintrock-c'', cidr_ip = None\<rparr>,
                        \<lparr>ip_protocol = ''tcp'', from_port = 0, to_port = 65535,
                          src_group = Some ''flintrock-c'', cidr_ip = None\<rparr>]"
         and r = "\<lparr>ip_protocol = ''udp'', from_port = 0, to_port = 65535,
                    src_group = Some ''flintrock-c'', cidr_ip = None\<rparr>"
         and after = "[]" and e = SocketTimeout,
       THEN conjunct2, THEN conjunct2, THEN conjunct1]
    by (simp add: quiet_world_def tolerated_def client_rules_def cluster_rules_def)
  have "\<exists>es handles st1.
          get_or_create_ec2_security_groups quiet_world ''c'' None ''us-east-1'' []
            = (es, Returned (handles, st1))"
    by (simp add: get_or_create_ec2_security_groups_def Let_def found_group_def or_create_def
        create_security_group_def authorize_rule_def authorize_def client_rules_def
        cluster_rules_def quiet_world_def and_then_def answer_def)
  then obtain es handles st1 where run:
      "get_or_create_ec2_security_groups quiet_world ''c'' None ''us-east-1'' []
         = (es, Returned (handles, st1))"
    by blast
  have ip4: "checkip ?w4 = Inr (''203.0.113.7'' @ [CHR 0x0A])"
    by simp
  have same: "strip (''203.0.113.7'' @ [CHR 0x0A]) = strip ''203.0.113.7''"
    by (simp add: strip_def py_isspace_def)
  have faults: "authorize_fault ?w4 = authorize_fault quiet_world"
    by simp
  have "get_or_create_ec2_security_groups ?w4 ''c'' None ''us-east-1'' st1
          = (map (Authorize ''flintrock'') (client_rules ''203.0.113.7/32'')
               @ map (Authorize ''flintrock-c'') (cluster_rules ''flintrock-c''),
             Returned (handles, st1))"
    using security_group_rules_idempotent
      [where w = quiet_world and body = "''203.0.113.7''" and cluster_name = "''c''"
         and vpc_id = None and region = "''us-east-1''" and st = "[]" and es = es
         and handles = handles and ?st1.0 = st1 and ?w2.0 = ?w4
         and ?body2.0 = "''203.0.113.7'' @ [CHR 0x0A]",
       OF ip, THEN conjunct2, THEN conjunct2, THEN conjunct2]
      run ip4 same faults
    by simp
  with run a b c show ?thesis by blast
qed

text \<open>
  Claim C3 as the specification words it does not hold: the set-up reads the client
  address anew on every call, and when the address has changed between two calls the
  second call adds the three client-ingress rules for the new address to the base group.
\<close>

theorem security_group_rules_changed_address_counterexample:
  "(case snd (get_or_create_ec2_security_groups quiet_world ''c'' None ''us-east-1'' []) of
      Returned (handles, st1) \<Rightarrow>
        (case snd (get_or_create_ec2_security_groups
                     (quiet_world\<lparr>checkip := Inr ''198.51.100.9''\<rparr>)
                     ''c'' None ''us-east-1'' st1) of
           Returned (handles2, st2) \<Rightarrow>
             rules_of st1 ''flintrock'' = client_rules ''203.0.113.7/32''
             \<and> rules_of st2 ''flintrock''
                 = client_rules ''203.0.113.7/32'' @ client_rules ''198.51.100.9/32''
         | _ \<Rightarrow> False)
    | _ \<Rightarrow> False)"
  by (simp add: get_or_create_ec2_security_groups_def Let_def found_group_def or_create_def
      create_security_group_def authorize_rule_def authorize_def client_rules_def
      cluster_rules_def quiet_world_def and_then_def answer_def rules_of_def
      strip_def py_isspace_def)

subsection \<open>Templates\<close>

lemma format_map_text:
  "list_all (\<lambda>c. c \<noteq> CHR ''{'' \<and> c \<noteq> CHR ''}'') s \<Longrightarrow>
     format_map w mapping None (s @ rest)
       = (case format_map w mapping None rest of Inl e \<Rightarrow> Inl e | Inr out \<Rightarrow> Inr (s @ out))"
  by (induction s) (auto split: sum.splits)

lemma format_map_name:
  "list_all (\<lambda>c. c \<noteq> CHR ''}'' \<and> \<not> compound_char c) key \<Longrightarrow>
     format_map w mapping (Some seen) (key @ CHR ''}'' # rest)
       = (if positional (seen @ key) then Inl ValueError
          else (case format_map w mapping None rest of
                  Inl e \<Rightarrow> Inl e
                | Inr out \<Rightarrow> Inr (template_lookup mapping (seen @ key) @ out)))"
  by (induction key arbitrary: seen) (auto split: sum.splits)

lemma format_map_placeholder:
  assumes "well_formed (Placeholder key)"
  shows "format_map w mapping None (template_text (Placeholder key) @ rest)
           = (case format_map w mapping None rest of
                Inl e \<Rightarrow> Inl e
              | Inr out \<Rightarrow> Inr (rendered mapping (Placeholder key) @ out))"
proof -
  from assms have np: "\<not> positional key"
    and chars: "list_all (\<lambda>c. c \<noteq> CHR ''}'' \<and> \<not> compound_char c) key"
    by simp_all
  from np obtain c cs where key: "key = c # cs"
    by (cases key) (auto simp: positional_def)
  with chars have "c \<noteq> CHR ''{''"
    by (auto simp: compound_char_def)
  then have "format_map w mapping None (CHR ''{'' # key @ CHR ''}'' # rest)
               = format_map w mapping (Some []) (key @ CHR ''}'' # rest)"
    by (simp add: key)
  also have "\<dots> = (case format_map w mapping None rest of
                  Inl e \<Rightarrow> Inl e
                | Inr out \<Rightarrow> Inr (template_lookup mapping key @ out))"
    using format_map_name [OF chars, of w mapping "[]" rest] np by (simp split: sum.splits)
  finally have "format_map w mapping None (CHR ''{'' # key @ CHR ''}'' # rest)
                  = (case format_map w mapping None rest of
                       Inl e \<Rightarrow> Inl e
                     | Inr out \<Rightarrow> Inr (template_lookup mapping key @ out))" .
  then show ?thesis
    by (simp del: format_map.simps cong: sum.case_cong)
qed

lemma format_map_tokens:
  "\<forall>t\<in>set tokens. well_formed t \<Longrightarrow>
     format_map w mapping None (concat (map template_text tokens))
       = Inr (concat (map (rendered mapping) tokens))"
proof (induction tokens)
  case Nil
  then show ?case by simp
next
  case (Cons t tokens)
  then have rest: "format_map w mapping None (concat (map template_text tokens))
                     = Inr (concat (map (rendered mapping) tokens))"
    by simp
  show ?case
  proof (cases t)
    case (Text s)
    with Cons.prems have "list_all (\<lambda>c. c \<noteq> CHR ''{'' \<and> c \<noteq> CHR ''}'') s" by simp
    from format_map_text [OF this] rest Text show ?thesis by simp
  next
    case (Placeholder key)
    with Cons.prems have "well_formed (Placeholder key)" by simp
    from format_map_placeholder [OF this, of w mapping "concat (map template_text tokens)"]
      rest Placeholder
    show ?thesis by simp
  qed
qed

text \<open>
  Claim C8, as the code has it. Let the template file hold a sequence of literal texts
  without braces and of placeholders \<^verbatim>\<open>{key}\<close>, where no key is empty or a number and no
  key has a closing brace or one of the characters \<^verbatim>\<open>! : . [ {\<close>. Then rendering
  succeeds; every literal text is copied; every placeholder whose key is bound is
  replaced by the bound text, exactly as it is (a brace in it opens no further
  substitution); every other placeholder is copied as \<^verbatim>\<open>{key}\<close>.
\<close>

theorem get_formatted_template_renders:
  assumes "\<forall>t\<in>set tokens. well_formed t"
    and "read_file w path = Inr (concat (map template_text tokens))"
  shows "get_formatted_template w path mapping = Inr (concat (map (rendered mapping) tokens))"
  using assms by (simp add: get_formatted_template_def format_map_tokens)

text \<open>
  Claim C8 is stated for every template text, and so does not hold: a template that
  holds the shell literal \<^verbatim>\<open>${}\<close> is not rendered at all, since its placeholder has the
  empty name, which \<^verbatim>\<open>format_map\<close> takes for a positional field.
\<close>

theorem get_formatted_template_empty_placeholder_counterexample:
  "get_formatted_template (quiet_world\<lparr>read_file := (\<lambda>path. Inr ''export X=${}'')\<rparr>)
     ''./install-spark.sh'' [(''master_host'', ''node1.example'')]
   = Inl ValueError"
  by (simp add: get_formatted_template_def positional_def)

theorem get_formatted_template_renders_witness:
  "get_formatted_template
     (quiet_world\<lparr>read_file := (\<lambda>path. Inr ''m={master_host} j=${JAVA_HOME} d={spark_scratch_dir}'')\<rparr>)
     ''templates/./spark/conf/spark-env.sh''
     [(''master_host'', ''{spark_scratch_dir}''), (''spark_scratch_dir'', ''/mnt/spark'')]
   = Inr ''m={spark_scratch_dir} j=${JAVA_HOME} d=/mnt/spark''"
  using get_formatted_template_renders
    [of "[Text ''m='', Placeholder ''master_host'', Text '' j=$'', Placeholder ''JAVA_HOME'',
          Text '' d='', Placeholder ''spark_scratch_dir'']"
        "quiet_world\<lparr>read_file := (\<lambda>path. Inr ''m={master_host} j=${JAVA_HOME} d={spark_scratch_dir}'')\<rparr>"
        "''templates/./spark/conf/spark-env.sh''"
        "[(''master_host'', ''{spark_scratch_dir}''), (''spark_scratch_dir'', ''/mnt/spark'')]"]
  by (simp add: positional_def compound_char_def template_lookup_def)

subsection \<open>Commands on a cluster that does not exist, and launch on one that does\<close>

lemma get_cluster_instances_ec2_empty:
  "get_only_instances w region (cluster_filter cluster_name) = Inr [] \<Longrightarrow>
     get_cluster_instances_ec2 w cluster_name region
       = Inl (ClusterNotFound (''No such cluster: '' @ cluster_name))"
  by (simp add: get_cluster_instances_ec2_def)

text \<open>
  Claim C5, as the code has it. When the lookup of the cluster yields no instance:
  \<^verbatim>\<open>destroy\<close> and \<^verbatim>\<open>stop\<close> print \<^verbatim>\<open>No such cluster.\<close> and \<^verbatim>\<open>start\<close> prints
  \<^verbatim>\<open>No such cluster: <name>\<close>, and each of the three ends with \<^verbatim>\<open>sys.exit(0)\<close>, whatever
  its other arguments; \<^verbatim>\<open>launch\<close> goes on as if there had been no lookup, with the
  security groups and then the launch proper; \<^verbatim>\<open>describe\<close> prints
  \<^verbatim>\<open>0 clusters found.\<close> and returns; \<^verbatim>\<open>login\<close>, whose lookup also asks for the master
  tag, raises an exception with a message.
\<close>

theorem zero_nodes:
  assumes "get_only_instances w region (cluster_filter cluster_name) = Inr []"
  shows "destroy_ec2 w cluster_name assume_yes region
           = ([Print ''No such cluster.''], Raised (SystemExit 0))
       \<and> stop_ec2 w cluster_name region assume_yes
           = ([Print ''No such cluster.''], Raised (SystemExit 0))
       \<and> start_ec2 w cluster_name region identity_file user
           = ([Print (''No such cluster: '' @ cluster_name)], Raised (SystemExit 0))
       \<and> launch_ec2 w cluster_name num_slaves modules identity_file region user vpc_id request
           = timeit ''launch_ec2'' w
               (and_then
                  (get_or_create_ec2_security_groups w cluster_name vpc_id region
                     (provider_groups w))
                  (\<lambda>(security_groups, groups_left).
                     on_keyboard_interrupt
                       (launch_body w cluster_name num_slaves modules identity_file user
                          security_groups)))
       \<and> (get_only_instances w region (describe_filter (Some cluster_name)) = Inr []
            \<longrightarrow> describe_ec2 w (Some cluster_name) master_hostname_only region
                  = ([Print ''0 clusters found.''], Returned ()))
       \<and> (get_only_instances w region
              [(''instance.group-name'', ''flintrock-'' @ cluster_name),
               (''tag:flintrock-role'', ''master'')] = Inr []
            \<longrightarrow> (\<exists>message. login_ec2 w cluster_name region identity_file user
                              = ([], Raised (Exception message))))"
  using assms
  by (simp add: destroy_ec2_def stop_ec2_def start_ec2_def launch_ec2_def timeit_def
      get_cluster_instances_ec2_empty describe_ec2_def cluster_names_of_def emit_def
      login_ec2_def str_nat.simps)

text \<open>
  Claim C5 as worded does not hold: for a cluster that does not exist, \<^verbatim>\<open>destroy\<close> ends
  with exit code 0.
\<close>

theorem destroy_ec2_exit_code_counterexample:
  "snd (destroy_ec2 quiet_world ''c'' True ''us-east-1'') = Raised (SystemExit 0)"
  by (simp add: destroy_ec2_def quiet_world_def)

theorem zero_nodes_witness:
  "stop_ec2 quiet_world ''c'' ''us-east-1'' True
     = ([Print ''No such cluster.''], Raised (SystemExit 0))
   \<and> start_ec2 quiet_world ''c'' ''us-east-1'' ''key.pem'' ''ec2-user''
     = ([Print ''No such cluster: c''], Raised (SystemExit 0))
   \<and> describe_ec2 quiet_world (Some ''c'') False ''us-east-1''
     = ([Print ''0 clusters found.''], Returned ())"
  using zero_nodes [of quiet_world "''us-east-1''" "''c''" True "''key.pem''" "''ec2-user''"
                       0 "[]" None default_request False]
  by (simp add: quiet_world_def)

text \<open>
  When the lookup finds a master, \<^verbatim>\<open>launch\<close> prints that the cluster exists and ends
  with exit code 1; whenever the lookup returns an instance, \<^verbatim>\<open>launch\<close> makes no request
  to the provider.
\<close>

lemma launch_ec2_existing:
  "get_cluster_instances_ec2 w cluster_name region = Inr found \<Longrightarrow>
     launch_ec2 w cluster_name num_slaves modules identity_file region user vpc_id request
       = ([PrintErr (''Cluster already exists: '' @ cluster_name)], Raised (SystemExit 1))"
  by (simp add: launch_ec2_def timeit_def)

lemma filter_by_role_Inl:
  "filter_by_role p xs = Inl e \<Longrightarrow> e = KeyError ''flintrock-role''"
  by (induction xs arbitrary: e) (auto split: option.splits sum.splits)

lemma launch_ec2_no_mutation:
  assumes "get_only_instances w region (cluster_filter cluster_name) = Inr cluster_instances"
    and "cluster_instances \<noteq> []"
  shows "fst (launch_ec2 w cluster_name num_slaves modules identity_file region user vpc_id
                request)
           \<in> {[], [PrintErr (''Cluster already exists: '' @ cluster_name)]}"
proof (cases "get_cluster_instances_ec2 w cluster_name region")
  case (Inr found)
  then show ?thesis by (simp add: launch_ec2_existing)
next
  case (Inl e)
  have ne: "e \<noteq> ClusterNotFound m" for m
    using Inl assms
    by (auto simp: get_cluster_instances_ec2_def split: sum.splits list.splits
        dest: filter_by_role_Inl)
  show ?thesis
  proof (cases e)
    case (ClusterNotFound m)
    with ne show ?thesis by blast
  qed (use Inl in \<open>simp_all add: launch_ec2_def timeit_def\<close>)
qed

text \<open>
  Claim C1 at a cluster whose only instance is tagged as a slave: the cluster exists, and
  \<^verbatim>\<open>launch\<close> ends with an \<^verbatim>\<open>IndexError\<close> that nothing catches; it prints no message
  that the cluster exists.
\<close>

theorem launch_ec2_existing_without_master:
  "launch_ec2
     (quiet_world\<lparr>get_only_instances := (\<lambda>region filters. Inr
        [\<lparr>inst_id = ''i-2'', state = ''running'', public_dns_name = ''node2.example'',
          ip_address = ''10.0.0.2'', tags = [(''flintrock-role'', ''slave'')],
          groups = [''flintrock'', ''flintrock-c'']\<rparr>])\<rparr>)
     ''c'' 1 [] ''key.pem'' ''us-east-1'' ''ec2-user'' None default_request
   = ([], Raised IndexError)"
  by (simp add: launch_ec2_def timeit_def get_cluster_instances_ec2_def)

end
